theory Spec2Isabelle
  imports Complex_Main
begin

section \<open>JavaScript values used by the relay service\<close>

text \<open>
  Strings are lists of characters; \<open>length\<close> counts code units as the source's
  \<open>.length\<close> does. An optional string field (\<open>relay?: string\<close>, an array element
  that may be missing) is a \<open>string option\<close>, \<open>None\<close> standing for \<open>undefined\<close>.
\<close>

text \<open>Truthiness of an optional string: \<open>undefined\<close> and the empty string are falsy.\<close>

definition truthy_str :: "string option \<Rightarrow> bool" where
  "truthy_str v = (case v of None \<Rightarrow> False | Some s \<Rightarrow> s \<noteq> [])"

text \<open>The idiom \<open>v || undefined\<close> on an optional string.\<close>

definition or_undefined :: "string option \<Rightarrow> string option" where
  "or_undefined v = (if truthy_str v then v else None)"

text \<open>Array indexing \<open>xs[i]\<close>: \<open>undefined\<close> out of range.\<close>

definition js_index :: "'a list \<Rightarrow> nat \<Rightarrow> 'a option" where
  "js_index xs i = (if i < length xs then Some (xs ! i) else None)"

text \<open>
  The value \<open>JSON.parse\<close> returns. The parser itself belongs to the platform and is a
  parameter of the model: \<open>None\<close> is a thrown \<open>SyntaxError\<close>. An object is the list
  of its properties (the parser has already resolved duplicate keys).
\<close>

datatype json =
    JNull
  | JBool bool
  | JNum rat
  | JStr string
  | JArr "json list"
  | JObj "(string \<times> json) list"

type_synonym json_parser = "string \<Rightarrow> json option"

datatype jstype = TObject | TBoolean | TNumber | TString

fun typeof :: "json \<Rightarrow> jstype" where
  "typeof JNull = TObject"
| "typeof (JBool b) = TBoolean"
| "typeof (JNum n) = TNumber"
| "typeof (JStr s) = TString"
| "typeof (JArr xs) = TObject"
| "typeof (JObj kvs) = TObject"

fun truthy :: "json \<Rightarrow> bool" where
  "truthy JNull = False"
| "truthy (JBool b) = b"
| "truthy (JNum n) = (n \<noteq> 0)"
| "truthy (JStr s) = (s \<noteq> [])"
| "truthy (JArr xs) = True"
| "truthy (JObj kvs) = True"

text \<open>
  Property read \<open>parsed.k\<close> for the profile keys: an object answers from its own
  properties; an array has none of these keys.
\<close>

fun get_prop :: "json \<Rightarrow> string \<Rightarrow> json option" where
  "get_prop (JObj kvs) k = map_of kvs k"
| "get_prop v k = None"

text \<open>
  \<open>new URL(s)\<close> is the platform's parser, a parameter as well: \<open>None\<close> is the thrown
  \<open>TypeError\<close>; of the parsed URL the validators read \<open>protocol\<close> and \<open>hostname\<close>.
\<close>

record url =
  protocol :: string
  hostname :: string

type_synonym url_parser = "string \<Rightarrow> url option"

section \<open>Validators (utils/validation.ts)\<close>

definition MAX_ROLE_LENGTH :: nat where
  "MAX_ROLE_LENGTH = 100"

definition is_digit :: "char \<Rightarrow> bool" where
  "is_digit c = (c \<in> set ''0123456789'')"

definition is_lower :: "char \<Rightarrow> bool" where
  "is_lower c = (c \<in> set ''abcdefghijklmnopqrstuvwxyz'')"

definition is_upper :: "char \<Rightarrow> bool" where
  "is_upper c = (c \<in> set ''ABCDEFGHIJKLMNOPQRSTUVWXYZ'')"

text \<open>White space (\<open>\s\<close>, and what \<open>trim\<close> strips) among the code units below 256.\<close>

definition is_space :: "char \<Rightarrow> bool" where
  "is_space c = ((of_char c :: nat) \<in> set [9, 10, 11, 12, 13, 32, 160])"

definition is_hex :: "char \<Rightarrow> bool" where
  "is_hex c = (is_digit c \<or> c \<in> set ''abcdef'' \<or> c \<in> set ''ABCDEF'')"

definition trim :: "string \<Rightarrow> string" where
  "trim s = rev (dropWhile is_space (rev (dropWhile is_space s)))"

text \<open>\<open>ROLE_PATTERN = /^[a-zA-Z0-9\s\-_]+$/\<close>\<close>

definition ROLE_PATTERN :: "string \<Rightarrow> bool" where
  "ROLE_PATTERN s =
     (s \<noteq> [] \<and>
      list_all (\<lambda>c. is_lower c \<or> is_upper c \<or> is_digit c \<or> is_space c
                    \<or> c = CHR ''-'' \<or> c = CHR ''_'') s)"

definition isValidRoleTag :: "string \<Rightarrow> bool" where
  "isValidRoleTag role =
     (let trimmed = trim role
      in length trimmed > 0 \<and> length trimmed \<le> MAX_ROLE_LENGTH \<and> ROLE_PATTERN trimmed)"

text \<open>\<open>/^[0-9a-fA-F]+$/\<close>\<close>

definition hex_pattern :: "string \<Rightarrow> bool" where
  "hex_pattern s = (s \<noteq> [] \<and> list_all is_hex s)"

definition isValidPubkey :: "string \<Rightarrow> bool" where
  "isValidPubkey pubkey = (length pubkey = 64 \<and> hex_pattern pubkey)"

definition isValidHttpUrl :: "url_parser \<Rightarrow> string \<Rightarrow> bool" where
  "isValidHttpUrl new_URL u =
     (case new_URL u of
        None \<Rightarrow> False
      | Some parsed \<Rightarrow> protocol parsed \<in> set [''http:'', ''https:''])"

definition isValidRelayUrl :: "url_parser \<Rightarrow> string \<Rightarrow> bool" where
  "isValidRelayUrl new_URL u =
     (case new_URL u of
        None \<Rightarrow> False
      | Some parsed \<Rightarrow>
          protocol parsed \<in> set [''ws:'', ''wss:''] \<and> length (hostname parsed) > 0)"

section \<open>Records on the wire and application data (types/nostr)\<close>

record ProfileMetadata =
  name :: "string option"
  display_name :: "string option"
  about :: "string option"
  picture :: "string option"
  website :: "string option"

record FollowEntry =
  pubkey :: string
  relay :: "string option"
  petname :: "string option"

text \<open>
  A record as it arrives from a relay or is handed to the signer. The author field
  \<open>pubkey\<close> of an event is optional (the signer sets it).
\<close>

record NostrEvent =
  kind :: int
  content :: string
  created_at :: int
  tags :: "string list list"
  event_pubkey :: "string option"

text \<open>A packet of a query stream; \<open>packet?.event\<close> is \<open>None\<close> when there is no event.\<close>

type_synonym packet = "NostrEvent option"

record Filter =
  kinds :: "int list"
  authors :: "string list option"
  limit :: "int option"

section \<open>Profile codec\<close>

definition maxProfileContentSize :: nat where
  "maxProfileContentSize = 10000"

definition string_field :: "json \<Rightarrow> string \<Rightarrow> string option" where
  "string_field parsed k =
     (case get_prop parsed k of Some (JStr s) \<Rightarrow> Some s | _ \<Rightarrow> None)"

definition parseProfileMetadata :: "json_parser \<Rightarrow> string \<Rightarrow> ProfileMetadata option" where
  "parseProfileMetadata JSON_parse c =
     (if length c > maxProfileContentSize then None
      else case JSON_parse c of
             None \<Rightarrow> None
           | Some parsed \<Rightarrow>
               if \<not> truthy parsed \<or> typeof parsed \<noteq> TObject then None
               else Some \<lparr> name = string_field parsed ''name'',
                           display_name = string_field parsed ''display_name'',
                           about = string_field parsed ''about'',
                           picture = string_field parsed ''picture'',
                           website = string_field parsed ''website'' \<rparr>)"

section \<open>Tag codec\<close>

datatype error =
    NotInitialized
  | NoRelaysConfigured
  | NoPublishMethod
  | InvalidPubkeyFormat
  | InvalidEntryRelayUrl
  | InvalidRelayUrlFormat
  | SignFailure string
  | TransportError string
  | ReferenceError

text \<open>The body of the \<open>followList.map\<close> callback of \<open>publishFollowList\<close>.\<close>

definition encodeEntry :: "url_parser \<Rightarrow> FollowEntry \<Rightarrow> error + string list" where
  "encodeEntry new_URL entry =
     (if \<not> isValidPubkey (pubkey entry) then Inl InvalidPubkeyFormat
      else if truthy_str (relay entry) \<and> \<not> isValidRelayUrl new_URL (the (relay entry))
        then Inl InvalidEntryRelayUrl
      else Inr ([''p'', pubkey entry]
                @ (if truthy_str (relay entry) then [the (relay entry)] else [])
                @ (if truthy_str (petname entry) then [the (petname entry)] else [])))"

text \<open>\<open>followList.map(...)\<close>: the first entry that throws aborts the whole map.\<close>

fun encodeFollowList :: "url_parser \<Rightarrow> FollowEntry list \<Rightarrow> error + string list list" where
  "encodeFollowList new_URL [] = Inr []"
| "encodeFollowList new_URL (entry # rest) =
     (case encodeEntry new_URL entry of
        Inl e \<Rightarrow> Inl e
      | Inr tag \<Rightarrow>
          (case encodeFollowList new_URL rest of
             Inl e \<Rightarrow> Inl e
           | Inr tgs \<Rightarrow> Inr (tag # tgs)))"

text \<open>The loop over the tags in the \<open>next\<close> callback of \<open>fetchFollowList\<close>.\<close>

fun decodeFollowTags :: "string list list \<Rightarrow> FollowEntry list" where
  "decodeFollowTags [] = []"
| "decodeFollowTags (tag # rest) =
     (if js_index tag 0 = Some ''p'' \<and> truthy_str (js_index tag 1)
      then \<lparr> pubkey = the (js_index tag 1),
             relay = or_undefined (js_index tag 2),
             petname = or_undefined (js_index tag 3) \<rparr> # decodeFollowTags rest
      else decodeFollowTags rest)"

text \<open>The loop over the tags in the \<open>next\<close> callback of \<open>fetchProfileRoleTag\<close>.\<close>

fun findRoleTag :: "string list list \<Rightarrow> string option" where
  "findRoleTag [] = None"
| "findRoleTag (tag # rest) =
     (if js_index tag 0 = Some ''role'' \<and> truthy_str (js_index tag 1)
         \<and> isValidRoleTag (trim (the (js_index tag 1)))
      then Some (trim (the (js_index tag 1)))
      else findRoleTag rest)"

section \<open>Subscription race engine\<close>

text \<open>
  Every operation subscribes an observer to a stream of the event store and starts one
  timer; the promise it returns is settled by the first \<open>resolve\<close> or \<open>reject\<close> that
  runs, later ones are ignored. A callback is the list of the statements it executes on
  the subscription and on the promise.
\<close>

datatype 'p notification = Next 'p | Complete | Error error

datatype 'r settled = Pending | Resolved 'r | Rejected error

datatype 'r action = Unsubscribe | Resolve 'r | Reject error

datatype 'p callback = Src "'p notification" | Timer

text \<open>
  What the stream will deliver, in delivery order, each notification with the time in
  milliseconds since the subscription was made. Notifications arrive after \<open>subscribe\<close>
  has returned.
\<close>

type_synonym 'p schedule = "(nat \<times> 'p notification) list"

record ('a, 'r) race_state =
  collected :: 'a
  promise_state :: "'r settled"
  unsubscribed :: bool
  settledAt :: "nat option"

record ('a, 'p, 'r) observer =
  on_next :: "'a \<Rightarrow> 'p \<Rightarrow> 'a \<times> 'r action list"
  on_complete :: "'a \<Rightarrow> 'r action list"
  on_error :: "'a \<Rightarrow> error \<Rightarrow> 'r action list"
  on_timeout :: "'a \<Rightarrow> 'r action list"

fun act :: "nat \<Rightarrow> 'r action \<Rightarrow> ('a, 'r) race_state \<Rightarrow> ('a, 'r) race_state" where
  "act t Unsubscribe s = s\<lparr>unsubscribed := True\<rparr>"
| "act t (Resolve v) s =
     (if promise_state s = Pending
      then s\<lparr>promise_state := Resolved v, settledAt := Some t\<rparr> else s)"
| "act t (Reject e) s =
     (if promise_state s = Pending
      then s\<lparr>promise_state := Rejected e, settledAt := Some t\<rparr> else s)"

definition perform :: "nat \<Rightarrow> 'r action list \<Rightarrow> ('a, 'r) race_state \<Rightarrow> ('a, 'r) race_state" where
  "perform t as s = fold (act t) as s"

text \<open>
  One turn of the event loop at time \<open>t\<close>. A closed subscription delivers nothing; a
  stream that completes or errors is closed after its callback. The timer is never
  cleared, so its callback always runs.
\<close>

fun deliver ::
  "('a, 'p, 'r) observer \<Rightarrow> nat \<Rightarrow> 'p callback \<Rightarrow> ('a, 'r) race_state \<Rightarrow> ('a, 'r) race_state"
where
  "deliver ob t Timer s = perform t (on_timeout ob (collected s)) s"
| "deliver ob t (Src n) s =
     (if unsubscribed s then s
      else case n of
             Next p \<Rightarrow>
               (case on_next ob (collected s) p of
                  (a, as) \<Rightarrow> perform t as (s\<lparr>collected := a\<rparr>))
           | Complete \<Rightarrow> (perform t (on_complete ob (collected s)) s)\<lparr>unsubscribed := True\<rparr>
           | Error e \<Rightarrow> (perform t (on_error ob (collected s) e) s)\<lparr>unsubscribed := True\<rparr>)"

definition deliver_all ::
  "('a, 'p, 'r) observer \<Rightarrow> 'p schedule \<Rightarrow> ('a, 'r) race_state \<Rightarrow> ('a, 'r) race_state"
where
  "deliver_all ob evs s = fold (\<lambda>(t, n). deliver ob t (Src n)) evs s"

definition before_deadline :: "nat \<Rightarrow> nat \<times> 'p notification \<Rightarrow> bool" where
  "before_deadline D ev = (fst ev < D)"

definition initial_race :: "'a \<Rightarrow> ('a, 'r) race_state" where
  "initial_race a0 =
     \<lparr> collected = a0, promise_state = Pending, unsubscribed = False, settledAt = None \<rparr>"

text \<open>
  \<open>subscribe\<close> followed by \<open>setTimeout(..., D)\<close>: the notifications due before \<open>D\<close>,
  then the timer callback at \<open>D\<close>, then whatever the stream still holds.
\<close>

definition race ::
  "('a, 'p, 'r) observer \<Rightarrow> nat \<Rightarrow> 'p schedule \<Rightarrow> 'a \<Rightarrow> ('a, 'r) race_state"
where
  "race ob D evs a0 =
     deliver_all ob (dropWhile (before_deadline D) evs)
       (deliver ob D Timer
          (deliver_all ob (takeWhile (before_deadline D) evs) (initial_race a0)))"

section \<open>The relay service (services/relay.service)\<close>

text \<open>
  The event store is the external collaborator. \<open>query\<close> is its query method when the
  streams it returns call the observer only after \<open>subscribe\<close> has returned.
  \<open>query_off_contract\<close> is a query method outside that contract:
  \<open>query(filter).subscribe(...)\<close> throws, or the stream calls the observer inside
  \<open>subscribe\<close> (letting what the observer throws propagate) before it goes on as a
  stream of the first kind. At most one of the two is set; the store has no query
  method when neither is. \<open>publish\<close> and \<open>publish_off_contract\<close> are the publish
  method in the same way. A publish stream delivers responses, of which the observer
  reads \<open>response?.type\<close>.

  \<open>store_setRelays\<close> is \<open>None\<close> when the store has no \<open>setRelays\<close> method. Otherwise
  it tells, for the content of the array the method is handed, what the method throws,
  if anything, and the content it leaves in that array: the service hands over its own
  \<open>relayUrls\<close> array, not a copy. A store changes that array, if at all, during the
  call.
\<close>

type_synonym response = "string option"

datatype 'p off_contract =
    Throws error
  | DeliversInside "'p notification list" "'p schedule"

record EventStore =
  query :: "(Filter \<Rightarrow> packet schedule) option"
  query_off_contract :: "(Filter \<Rightarrow> packet off_contract) option"
  publish :: "(NostrEvent \<Rightarrow> response schedule) option"
  publish_off_contract :: "(NostrEvent \<Rightarrow> response off_contract) option"
  store_setRelays :: "(string list \<Rightarrow> error option \<times> string list) option"

record RelayService =
  eventStore :: "EventStore option"
  relayUrls :: "string list"
  lastActionAt :: "string \<Rightarrow> int option"

record RelayServiceConfig =
  config_relayUrls :: "string list option"

definition defaultRelays :: "string list" where
  "defaultRelays = [''wss://relay.damus.io'']"

definition minProfileQueryIntervalMs :: int where
  "minProfileQueryIntervalMs = 300"

definition minPublishIntervalMs :: int where
  "minPublishIntervalMs = 750"

definition validateRelayUrls :: "url_parser \<Rightarrow> string list \<Rightarrow> error + string list" where
  "validateRelayUrls new_URL urls =
     (if length urls = 0 then Inr []
      else let validUrls = filter (isValidRelayUrl new_URL) urls
           in if length validUrls \<noteq> length urls then Inl InvalidRelayUrlFormat
              else Inr validUrls)"

text \<open>The constructor: a throw leaves no instance.\<close>

definition new_RelayService :: "url_parser \<Rightarrow> RelayServiceConfig \<Rightarrow> error + RelayService" where
  "new_RelayService new_URL config =
     (case validateRelayUrls new_URL
             (case config_relayUrls config of None \<Rightarrow> defaultRelays | Some urls \<Rightarrow> urls) of
        Inl e \<Rightarrow> Inl e
      | Inr urls \<Rightarrow> Inr \<lparr> eventStore = None, relayUrls = urls, lastActionAt = Map.empty \<rparr>)"

text \<open>
  \<open>eventStore.setRelays(this.relayUrls)\<close> when the store has that method: what the call
  throws and the content of the service's array after it.
\<close>

definition hand_relays :: "EventStore \<Rightarrow> string list \<Rightarrow> error option \<times> string list" where
  "hand_relays es urls =
     (case store_setRelays es of None \<Rightarrow> (None, urls) | Some method \<Rightarrow> method urls)"

definition thrown_or_done :: "error option \<Rightarrow> error + unit" where
  "thrown_or_done thrown = (case thrown of None \<Rightarrow> Inr () | Some e \<Rightarrow> Inl e)"

text \<open>
  \<open>initialize\<close> and \<open>setRelays\<close> return what they threw, if anything, and the service
  afterwards. Both assign before they call the store.
\<close>

definition initialize ::
  "RelayService \<Rightarrow> EventStore \<Rightarrow> (error + unit) \<times> RelayService"
where
  "initialize svc es =
     (case hand_relays es (relayUrls svc) of
        (thrown, urls) \<Rightarrow>
          (thrown_or_done thrown, svc\<lparr>eventStore := Some es, relayUrls := urls\<rparr>))"

definition setRelays ::
  "url_parser \<Rightarrow> RelayService \<Rightarrow> string list \<Rightarrow> (error + unit) \<times> RelayService"
where
  "setRelays new_URL svc urls =
     (case validateRelayUrls new_URL urls of
        Inl e \<Rightarrow> (Inl e, svc)
      | Inr valid \<Rightarrow>
          (case eventStore svc of
             None \<Rightarrow> (Inr (), svc\<lparr>relayUrls := valid\<rparr>)
           | Some es \<Rightarrow>
               (case hand_relays es valid of
                  (thrown, urls') \<Rightarrow> (thrown_or_done thrown, svc\<lparr>relayUrls := urls'\<rparr>))))"

definition getRelays :: "RelayService \<Rightarrow> string list" where
  "getRelays svc = relayUrls svc"

text \<open>
  \<open>enforceRateLimit\<close> at clock reading \<open>now\<close>: the service afterwards and the time
  it slept. The sleep ends when its timer is due, so the second clock reading is
  \<open>now + waited\<close>.
\<close>

definition enforceRateLimit ::
  "RelayService \<Rightarrow> int \<Rightarrow> string \<Rightarrow> int \<Rightarrow> RelayService \<times> int"
where
  "enforceRateLimit svc now action minIntervalMs =
     (let lastAt = (case lastActionAt svc action of None \<Rightarrow> 0 | Some t \<Rightarrow> t);
          waitMs = minIntervalMs - (now - lastAt);
          waited = (if waitMs > 0 then waitMs else 0)
      in (svc\<lparr>lastActionAt := (lastActionAt svc)(action \<mapsto> now + waited)\<rparr>, waited))"

text \<open>
  What a caller and the collaborators observe of one operation: how the promise
  settled, how long after the call, the calls made to the collaborators and the
  timers started for a deadline, and the service afterwards.
\<close>

datatype effect =
    Queried Filter
  | Published NostrEvent
  | Signed NostrEvent
  | TimerStarted nat

record 'r outcome =
  promise :: "'r settled"
  settled_after :: "int option"
  effects :: "effect list"
  service :: RelayService

definition settle_now ::
  "'r settled \<Rightarrow> int \<Rightarrow> RelayService \<Rightarrow> 'r outcome"
where
  "settle_now p waited svc =
     \<lparr> promise = p, settled_after = Some waited, effects = [], service = svc \<rparr>"

definition raced ::
  "('a, 'r) race_state \<Rightarrow> int \<Rightarrow> effect list \<Rightarrow> RelayService \<Rightarrow> 'r outcome"
where
  "raced r waited effs svc =
     \<lparr> promise = promise_state r,
       settled_after = map_option (\<lambda>t. waited + int t) (settledAt r),
       effects = effs, service = svc \<rparr>"

subsection \<open>Subscribing\<close>

text \<open>
  \<open>setTimeout(f, ms)\<close>: a delay outside \<open>1 .. 2^31 - 1\<close> is set to 1 (Node.js).
\<close>

definition setTimeout_delay :: "int \<Rightarrow> nat" where
  "setTimeout_delay ms = (if 1 \<le> ms \<and> ms \<le> 2147483647 then nat ms else 1)"

text \<open>The race from a state other than the initial one.\<close>

definition race_from ::
  "('a, 'p, 'r) observer \<Rightarrow> nat \<Rightarrow> 'p schedule \<Rightarrow> ('a, 'r) race_state \<Rightarrow> ('a, 'r) race_state"
where
  "race_from ob D evs s =
     deliver_all ob (dropWhile (before_deadline D) evs)
       (deliver ob D Timer (deliver_all ob (takeWhile (before_deadline D) evs) s))"

text \<open>
  Callbacks run inside \<open>subscribe\<close>. The constant \<open>subscription\<close> is assigned when
  \<open>subscribe\<close> returns, so a callback that reaches \<open>subscription.unsubscribe()\<close> before
  that throws a \<open>ReferenceError\<close> there: what it did before stands, the rest of it is
  not executed. The result is the state and whether a callback threw; a stream that
  completes or errors delivers nothing more.
\<close>

fun inside_subscribe ::
  "('a, 'p, 'r) observer \<Rightarrow> 'p notification list \<Rightarrow> ('a, 'r) race_state
     \<Rightarrow> ('a, 'r) race_state \<times> bool"
where
  "inside_subscribe ob [] s = (s, False)"
| "inside_subscribe ob (Next p # ns) s =
     (case on_next ob (collected s) p of
        (a, as) \<Rightarrow>
          if Unsubscribe \<in> set as
          then (perform 0 (takeWhile (\<lambda>x. x \<noteq> Unsubscribe) as) (s\<lparr>collected := a\<rparr>), True)
          else inside_subscribe ob ns (perform 0 as (s\<lparr>collected := a\<rparr>)))"
| "inside_subscribe ob (Complete # ns) s =
     (if Unsubscribe \<in> set (on_complete ob (collected s))
      then (perform 0 (takeWhile (\<lambda>x. x \<noteq> Unsubscribe) (on_complete ob (collected s))) s, True)
      else ((perform 0 (on_complete ob (collected s)) s)\<lparr>unsubscribed := True\<rparr>, False))"
| "inside_subscribe ob (Error e # ns) s =
     (if Unsubscribe \<in> set (on_error ob (collected s) e)
      then (perform 0 (takeWhile (\<lambda>x. x \<noteq> Unsubscribe) (on_error ob (collected s) e)) s, True)
      else ((perform 0 (on_error ob (collected s) e) s)\<lparr>unsubscribed := True\<rparr>, False))"

text \<open>
  A read on a store without a query method of the first kind. Without any query method
  the read resolves with its empty value. When \<open>query(filter).subscribe(...)\<close> throws,
  or a callback throws inside \<open>subscribe\<close>, the Promise executor throws: the promise
  is rejected unless it is settled already, and no timer is started. Otherwise the
  timer is started and the race goes on with what the stream delivers later.
\<close>

definition off_contract_read ::
  "('a, packet, 'r) observer \<Rightarrow> nat \<Rightarrow> EventStore \<Rightarrow> Filter \<Rightarrow> 'a \<Rightarrow> 'r \<Rightarrow> int
     \<Rightarrow> RelayService \<Rightarrow> 'r outcome"
where
  "off_contract_read ob D es flt a0 absent waited svc =
     (case query_off_contract es of
        None \<Rightarrow> settle_now (Resolved absent) waited svc
      | Some query_fn \<Rightarrow>
          (case query_fn flt of
             Throws e \<Rightarrow>
               raced (act 0 (Reject e) (initial_race a0)) waited [Queried flt] svc
           | DeliversInside ns later \<Rightarrow>
               (case inside_subscribe ob ns (initial_race a0) of
                  (s, threw) \<Rightarrow>
                    if threw
                    then raced (act 0 (Reject ReferenceError) s) waited [Queried flt] svc
                    else raced (race_from ob D later s) waited
                           [Queried flt, TimerStarted D] svc)))"

text \<open>
  The same for \<open>publishEvent\<close>, which rejects on a store without a publish method.
\<close>

definition off_contract_publish ::
  "(unit, response, bool) observer \<Rightarrow> nat \<Rightarrow> EventStore \<Rightarrow> NostrEvent \<Rightarrow> int
     \<Rightarrow> RelayService \<Rightarrow> bool outcome"
where
  "off_contract_publish ob D es event waited svc =
     (case publish_off_contract es of
        None \<Rightarrow> settle_now (Rejected NoPublishMethod) waited svc
      | Some publish_fn \<Rightarrow>
          (case publish_fn event of
             Throws e \<Rightarrow>
               raced (act 0 (Reject e) (initial_race ())) waited [Published event] svc
           | DeliversInside ns later \<Rightarrow>
               (case inside_subscribe ob ns (initial_race ()) of
                  (s, threw) \<Rightarrow>
                    if threw
                    then raced (act 0 (Reject ReferenceError) s) waited [Published event] svc
                    else raced (race_from ob D later s) waited
                           [Published event, TimerStarted D] svc)))"

subsection \<open>Observers of the read operations\<close>

definition null_on_exit :: "'a \<Rightarrow> ('b option) action list" where
  "null_on_exit a = [Unsubscribe, Resolve None]"

definition fetchProfile_next ::
  "json_parser \<Rightarrow> unit \<Rightarrow> packet \<Rightarrow> unit \<times> (ProfileMetadata option) action list"
where
  "fetchProfile_next JSON_parse a pkt =
     (case pkt of
        None \<Rightarrow> (a, [])
      | Some ev \<Rightarrow>
          if kind ev = 0 then
            (case parseProfileMetadata JSON_parse (content ev) of
               Some metadata \<Rightarrow> (a, [Unsubscribe, Resolve (Some metadata)])
             | None \<Rightarrow> (a, []))
          else (a, []))"

definition fetchProfile_observer ::
  "json_parser \<Rightarrow> (unit, packet, ProfileMetadata option) observer"
where
  "fetchProfile_observer JSON_parse =
     \<lparr> on_next = fetchProfile_next JSON_parse,
       on_complete = null_on_exit,
       on_error = (\<lambda>a e. null_on_exit a),
       on_timeout = null_on_exit \<rparr>"

definition fetchProfileRoleTag_next ::
  "unit \<Rightarrow> packet \<Rightarrow> unit \<times> (string option) action list"
where
  "fetchProfileRoleTag_next a pkt =
     (case pkt of
        None \<Rightarrow> (a, [])
      | Some ev \<Rightarrow>
          if kind ev = 0 then
            (case findRoleTag (tags ev) of
               Some candidate \<Rightarrow> (a, [Unsubscribe, Resolve (Some candidate)])
             | None \<Rightarrow> (a, [Unsubscribe, Resolve None]))
          else (a, []))"

definition fetchProfileRoleTag_observer :: "(unit, packet, string option) observer" where
  "fetchProfileRoleTag_observer =
     \<lparr> on_next = fetchProfileRoleTag_next,
       on_complete = null_on_exit,
       on_error = (\<lambda>a e. null_on_exit a),
       on_timeout = null_on_exit \<rparr>"

definition fetchFollowList_next ::
  "unit \<Rightarrow> packet \<Rightarrow> unit \<times> (FollowEntry list) action list"
where
  "fetchFollowList_next a pkt =
     (case pkt of
        None \<Rightarrow> (a, [])
      | Some ev \<Rightarrow>
          if kind ev = 3 then (a, [Unsubscribe, Resolve (decodeFollowTags (tags ev))])
          else (a, []))"

definition fetchFollowList_observer :: "(unit, packet, FollowEntry list) observer" where
  "fetchFollowList_observer =
     \<lparr> on_next = fetchFollowList_next,
       on_complete = (\<lambda>a. [Unsubscribe, Resolve []]),
       on_error = (\<lambda>a e. [Unsubscribe, Resolve []]),
       on_timeout = (\<lambda>a. [Unsubscribe, Resolve []]) \<rparr>"

type_synonym profile_map = "string \<Rightarrow> ProfileMetadata option"

definition fetchMultipleProfiles_next ::
  "json_parser \<Rightarrow> profile_map \<Rightarrow> packet \<Rightarrow> profile_map \<times> profile_map action list"
where
  "fetchMultipleProfiles_next JSON_parse profiles pkt =
     (case pkt of
        None \<Rightarrow> (profiles, [])
      | Some ev \<Rightarrow>
          if kind ev = 0 \<and> truthy_str (event_pubkey ev) then
            (case parseProfileMetadata JSON_parse (content ev) of
               Some metadata \<Rightarrow> (profiles(the (event_pubkey ev) \<mapsto> metadata), [])
             | None \<Rightarrow> (profiles, []))
          else (profiles, []))"

definition fetchMultipleProfiles_observer ::
  "json_parser \<Rightarrow> (profile_map, packet, profile_map) observer"
where
  "fetchMultipleProfiles_observer JSON_parse =
     \<lparr> on_next = fetchMultipleProfiles_next JSON_parse,
       on_complete = (\<lambda>profiles. [Unsubscribe, Resolve profiles]),
       on_error = (\<lambda>profiles e. [Unsubscribe, Resolve profiles]),
       on_timeout = (\<lambda>profiles. [Unsubscribe, Resolve profiles]) \<rparr>"

text \<open>The index \<open>queryProfiles\<close> keeps: per author the metadata and its timestamp.\<close>

type_synonym stamped_map = "string \<Rightarrow> (ProfileMetadata \<times> int) option"

text \<open>\<open>packet.event.created_at || 0\<close>\<close>

definition timestamp_of :: "NostrEvent \<Rightarrow> int" where
  "timestamp_of ev = (if created_at ev \<noteq> 0 then created_at ev else 0)"

definition queryProfiles_next ::
  "json_parser \<Rightarrow> stamped_map \<Rightarrow> packet \<Rightarrow> stamped_map \<times> profile_map action list"
where
  "queryProfiles_next JSON_parse profiles pkt =
     (case pkt of
        None \<Rightarrow> (profiles, [])
      | Some ev \<Rightarrow>
          if kind ev = 0 \<and> truthy_str (event_pubkey ev) then
            (case parseProfileMetadata JSON_parse (content ev) of
               Some metadata \<Rightarrow>
                 (let timestamp = timestamp_of ev;
                      existing = profiles (the (event_pubkey ev))
                  in if existing = None \<or> timestamp > snd (the existing)
                     then (profiles(the (event_pubkey ev) \<mapsto> (metadata, timestamp)), [])
                     else (profiles, []))
             | None \<Rightarrow> (profiles, []))
          else (profiles, []))"

text \<open>The map built by \<open>profiles.forEach\<close> on every exit of \<open>queryProfiles\<close>.\<close>

definition metadata_only :: "stamped_map \<Rightarrow> profile_map" where
  "metadata_only profiles = (\<lambda>pk. map_option fst (profiles pk))"

definition queryProfiles_observer ::
  "json_parser \<Rightarrow> (stamped_map, packet, profile_map) observer"
where
  "queryProfiles_observer JSON_parse =
     \<lparr> on_next = queryProfiles_next JSON_parse,
       on_complete = (\<lambda>profiles. [Unsubscribe, Resolve (metadata_only profiles)]),
       on_error = (\<lambda>profiles e. [Unsubscribe, Resolve (metadata_only profiles)]),
       on_timeout = (\<lambda>profiles. [Unsubscribe, Resolve (metadata_only profiles)]) \<rparr>"

text \<open>The observer of \<open>publishEvent\<close> has no \<open>complete\<close> callback.\<close>

definition publishEvent_next :: "unit \<Rightarrow> response \<Rightarrow> unit \<times> bool action list" where
  "publishEvent_next a resp =
     (if resp = Some ''OK'' then (a, [Unsubscribe, Resolve True]) else (a, []))"

definition publishEvent_observer :: "(unit, response, bool) observer" where
  "publishEvent_observer =
     \<lparr> on_next = publishEvent_next,
       on_complete = (\<lambda>a. []),
       on_error = (\<lambda>a e. [Unsubscribe, Reject e]),
       on_timeout = (\<lambda>a. [Unsubscribe, Resolve False]) \<rparr>"

subsection \<open>Deadlines\<close>

definition fetchProfile_timeoutMs :: nat where
  "fetchProfile_timeoutMs = 5000"

definition fetchProfileRoleTag_timeoutMs :: nat where
  "fetchProfileRoleTag_timeoutMs = 5000"

definition fetchFollowList_timeoutMs :: nat where
  "fetchFollowList_timeoutMs = 10000"

definition fetchMultipleProfiles_timeoutMs :: nat where
  "fetchMultipleProfiles_timeoutMs = 1000"

definition queryProfiles_timeoutMs :: nat where
  "queryProfiles_timeoutMs = 10000"

definition publishEvent_default_timeoutMs :: int where
  "publishEvent_default_timeoutMs = 1000"

subsection \<open>Operations\<close>

text \<open>
  Each operation runs at clock reading \<open>now\<close>. An \<open>async\<close> function that throws
  rejects its promise.
\<close>

definition publishEvent :: "RelayService \<Rightarrow> int \<Rightarrow> NostrEvent \<Rightarrow> int \<Rightarrow> bool outcome" where
  "publishEvent svc now event timeoutMs =
     (case eventStore svc of
        None \<Rightarrow> settle_now (Rejected NotInitialized) 0 svc
      | Some es \<Rightarrow>
          (case enforceRateLimit svc now ''publish'' minPublishIntervalMs of
             (svc', waited) \<Rightarrow>
               if length (relayUrls svc') = 0
                 then settle_now (Rejected NoRelaysConfigured) waited svc'
               else (case publish es of
                  None \<Rightarrow>
                    off_contract_publish publishEvent_observer
                      (setTimeout_delay timeoutMs) es event waited svc'
                | Some publish_fn \<Rightarrow>
                    raced (race publishEvent_observer (setTimeout_delay timeoutMs)
                             (publish_fn event) ())
                      waited [Published event, TimerStarted (setTimeout_delay timeoutMs)]
                      svc')))"

definition fetchProfile ::
  "json_parser \<Rightarrow> RelayService \<Rightarrow> int \<Rightarrow> string \<Rightarrow> (ProfileMetadata option) outcome"
where
  "fetchProfile JSON_parse svc now pk =
     (case eventStore svc of
        None \<Rightarrow> settle_now (Rejected NotInitialized) 0 svc
      | Some es \<Rightarrow>
          (case enforceRateLimit svc now ''fetch-profile'' minProfileQueryIntervalMs of
             (svc', waited) \<Rightarrow>
               (let flt = \<lparr> kinds = [0], authors = Some [pk], limit = Some 1 \<rparr>
                in case query es of
                     None \<Rightarrow>
                       off_contract_read (fetchProfile_observer JSON_parse)
                         fetchProfile_timeoutMs es flt () None waited svc'
                   | Some query_fn \<Rightarrow>
                       raced (race (fetchProfile_observer JSON_parse) fetchProfile_timeoutMs
                                (query_fn flt) ())
                         waited [Queried flt, TimerStarted fetchProfile_timeoutMs] svc')))"

definition fetchProfileRoleTag ::
  "RelayService \<Rightarrow> int \<Rightarrow> string \<Rightarrow> (string option) outcome"
where
  "fetchProfileRoleTag svc now pk =
     (case eventStore svc of
        None \<Rightarrow> settle_now (Rejected NotInitialized) 0 svc
      | Some es \<Rightarrow>
          (case enforceRateLimit svc now ''fetch-role-tag'' minProfileQueryIntervalMs of
             (svc', waited) \<Rightarrow>
               (let flt = \<lparr> kinds = [0], authors = Some [pk], limit = Some 1 \<rparr>
                in case query es of
                     None \<Rightarrow>
                       off_contract_read fetchProfileRoleTag_observer
                         fetchProfileRoleTag_timeoutMs es flt () None waited svc'
                   | Some query_fn \<Rightarrow>
                       raced (race fetchProfileRoleTag_observer fetchProfileRoleTag_timeoutMs
                                (query_fn flt) ())
                         waited [Queried flt, TimerStarted fetchProfileRoleTag_timeoutMs] svc')))"

definition fetchFollowList ::
  "RelayService \<Rightarrow> int \<Rightarrow> string \<Rightarrow> (FollowEntry list) outcome"
where
  "fetchFollowList svc now pk =
     (case eventStore svc of
        None \<Rightarrow> settle_now (Rejected NotInitialized) 0 svc
      | Some es \<Rightarrow>
          (case enforceRateLimit svc now ''fetch-follow-list'' minProfileQueryIntervalMs of
             (svc', waited) \<Rightarrow>
               (let flt = \<lparr> kinds = [3], authors = Some [pk], limit = Some 1 \<rparr>
                in case query es of
                     None \<Rightarrow>
                       off_contract_read fetchFollowList_observer
                         fetchFollowList_timeoutMs es flt () [] waited svc'
                   | Some query_fn \<Rightarrow>
                       raced (race fetchFollowList_observer fetchFollowList_timeoutMs
                                (query_fn flt) ())
                         waited [Queried flt, TimerStarted fetchFollowList_timeoutMs] svc')))"

definition fetchMultipleProfiles ::
  "json_parser \<Rightarrow> RelayService \<Rightarrow> int \<Rightarrow> string list \<Rightarrow> profile_map outcome"
where
  "fetchMultipleProfiles JSON_parse svc now pubkeys =
     (case eventStore svc of
        None \<Rightarrow> settle_now (Rejected NotInitialized) 0 svc
      | Some es \<Rightarrow>
          if length pubkeys = 0 then settle_now (Resolved Map.empty) 0 svc
          else
          (case enforceRateLimit svc now ''fetch-multiple-profiles'' minProfileQueryIntervalMs of
             (svc', waited) \<Rightarrow>
               (let flt = \<lparr> kinds = [0], authors = Some pubkeys, limit = None \<rparr>
                in case query es of
                     None \<Rightarrow>
                       off_contract_read (fetchMultipleProfiles_observer JSON_parse)
                         fetchMultipleProfiles_timeoutMs es flt Map.empty Map.empty waited svc'
                   | Some query_fn \<Rightarrow>
                       raced (race (fetchMultipleProfiles_observer JSON_parse)
                                fetchMultipleProfiles_timeoutMs (query_fn flt) Map.empty)
                         waited [Queried flt, TimerStarted fetchMultipleProfiles_timeoutMs] svc')))"

text \<open>The defaults of \<open>queryProfiles\<close> are \<open>pubkeys = []\<close> and \<open>limit = 100\<close>.\<close>

definition queryProfiles ::
  "json_parser \<Rightarrow> RelayService \<Rightarrow> int \<Rightarrow> string list \<Rightarrow> int \<Rightarrow> profile_map outcome"
where
  "queryProfiles JSON_parse svc now pubkeys max_results =
     (case eventStore svc of
        None \<Rightarrow> settle_now (Rejected NotInitialized) 0 svc
      | Some es \<Rightarrow>
          (case enforceRateLimit svc now ''query-profiles'' minProfileQueryIntervalMs of
             (svc', waited) \<Rightarrow>
               (let flt = \<lparr> kinds = [0],
                            authors = (if length pubkeys > 0 then Some pubkeys else None),
                            limit = Some max_results \<rparr>
                in case query es of
                     None \<Rightarrow>
                       off_contract_read (queryProfiles_observer JSON_parse)
                         queryProfiles_timeoutMs es flt Map.empty Map.empty waited svc'
                   | Some query_fn \<Rightarrow>
                       raced (race (queryProfiles_observer JSON_parse)
                                queryProfiles_timeoutMs (query_fn flt) Map.empty)
                         waited [Queried flt, TimerStarted queryProfiles_timeoutMs] svc')))"

text \<open>
  The signing collaborator returns the signed event or rejects. The parameter
  \<open>pubkey\<close> of \<open>publishFollowList\<close> is not read by the source.
\<close>

definition publishFollowList ::
  "url_parser \<Rightarrow> RelayService \<Rightarrow> int \<Rightarrow> string \<Rightarrow> FollowEntry list
     \<Rightarrow> (NostrEvent \<Rightarrow> error + NostrEvent) \<Rightarrow> bool outcome"
where
  "publishFollowList new_URL svc now pk followList signEvent =
     (case encodeFollowList new_URL followList of
        Inl e \<Rightarrow> settle_now (Rejected e) 0 svc
      | Inr tgs \<Rightarrow>
          (let event = \<lparr> kind = 3, content = [], created_at = now div 1000,
                         tags = tgs, event_pubkey = None \<rparr>
           in case signEvent event of
                Inl e \<Rightarrow> (settle_now (Rejected e) 0 svc)\<lparr>effects := [Signed event]\<rparr>
              | Inr signedEvent \<Rightarrow>
                  (let out = publishEvent svc now signedEvent publishEvent_default_timeoutMs
                   in out\<lparr>effects := Signed event # effects out\<rparr>)))"

section \<open>Reachable states of a service\<close>

text \<open>
  A service exists once its constructor has returned; afterwards it changes only
  through its public operations. The event stores it may be initialized with are those
  that \<open>admitted\<close> holds of.
\<close>

inductive reachable :: "url_parser \<Rightarrow> (EventStore \<Rightarrow> bool) \<Rightarrow> RelayService \<Rightarrow> bool"
  for new_URL :: url_parser and admitted :: "EventStore \<Rightarrow> bool"
where
  constructed:
    "new_RelayService new_URL config = Inr svc \<Longrightarrow> reachable new_URL admitted svc"
| initialized:
    "reachable new_URL admitted svc \<Longrightarrow> admitted es \<Longrightarrow>
       reachable new_URL admitted (snd (initialize svc es))"
| relays_set:
    "reachable new_URL admitted svc \<Longrightarrow>
       reachable new_URL admitted (snd (setRelays new_URL svc urls))"
| event_published:
    "reachable new_URL admitted svc \<Longrightarrow>
       reachable new_URL admitted (service (publishEvent svc now event timeoutMs))"
| follow_list_published:
    "reachable new_URL admitted svc \<Longrightarrow>
       reachable new_URL admitted
         (service (publishFollowList new_URL svc now pk followList signEvent))"
| profile_fetched:
    "reachable new_URL admitted svc \<Longrightarrow>
       reachable new_URL admitted (service (fetchProfile JSON_parse svc now pk))"
| role_tag_fetched:
    "reachable new_URL admitted svc \<Longrightarrow>
       reachable new_URL admitted (service (fetchProfileRoleTag svc now pk))"
| follow_list_fetched:
    "reachable new_URL admitted svc \<Longrightarrow>
       reachable new_URL admitted (service (fetchFollowList svc now pk))"
| profiles_fetched:
    "reachable new_URL admitted svc \<Longrightarrow>
       reachable new_URL admitted (service (fetchMultipleProfiles JSON_parse svc now pubkeys))"
| profiles_queried:
    "reachable new_URL admitted svc \<Longrightarrow>
       reachable new_URL admitted
         (service (queryProfiles JSON_parse svc now pubkeys max_results))"

section \<open>Notions used to state the properties\<close>

text \<open>
  A JavaScript object among the parsed values (\<open>typeof v === 'object'\<close> and \<open>v\<close> not
  \<open>null\<close>): a JSON object or a JSON array.
\<close>

fun is_object :: "json \<Rightarrow> bool" where
  "is_object (JObj kvs) = True"
| "is_object (JArr xs) = True"
| "is_object v = False"


text \<open>The packets of the leading \<open>next\<close> notifications of a stream.\<close>

fun leading_packets :: "'p notification list \<Rightarrow> 'p list" where
  "leading_packets [] = []"
| "leading_packets (Next p # ns) = p # leading_packets ns"
| "leading_packets (n # ns) = []"

text \<open>
  What an observer that settles only on exit is handed before it settles: the packets
  due before the deadline \<open>D\<close>, up to the first completion or error.
\<close>

definition delivered :: "nat \<Rightarrow> 'p schedule \<Rightarrow> 'p list" where
  "delivered D evs = leading_packets (map snd (takeWhile (before_deadline D) evs))"


text \<open>
  What the \<open>next\<close> callbacks of \<open>fetchMultipleProfiles\<close> and of \<open>queryProfiles\<close> have
  built from a list of packets, starting from the empty map.
\<close>

definition collect_profiles :: "json_parser \<Rightarrow> packet list \<Rightarrow> profile_map" where
  "collect_profiles JSON_parse pkts =
     fold (\<lambda>p profiles. fst (fetchMultipleProfiles_next JSON_parse profiles p)) pkts Map.empty"

definition index_profiles :: "json_parser \<Rightarrow> packet list \<Rightarrow> stamped_map" where
  "index_profiles JSON_parse pkts =
     fold (\<lambda>p profiles. fst (queryProfiles_next JSON_parse profiles p)) pkts Map.empty"

text \<open>
  An entry whose optional fields keep their positions in a tag: each is absent or a
  non-empty string, and a petname comes only with a relay.
\<close>

definition positional :: "FollowEntry \<Rightarrow> bool" where
  "positional entry =
     ((relay entry = None \<or> truthy_str (relay entry))
      \<and> (petname entry = None \<or> truthy_str (petname entry))
      \<and> (petname entry \<noteq> None \<longrightarrow> relay entry \<noteq> None))"

text \<open>
  An event store whose \<open>setRelays\<close>, if it has one, returns normally and leaves the
  array it is handed as it was.
\<close>

definition respects_relays :: "EventStore \<Rightarrow> bool" where
  "respects_relays es = (\<forall>urls. hand_relays es urls = (None, urls))"

text \<open>
  An event store within the contract of \<open>query\<close>: its query method, if it has one,
  returns streams that call the observer only after \<open>subscribe\<close> has returned.
\<close>

definition queries_in_contract :: "EventStore \<Rightarrow> bool" where
  "queries_in_contract es = (query es \<noteq> None \<or> query_off_contract es = None)"

definition is_reject :: "'r action \<Rightarrow> bool" where
  "is_reject x = (case x of Reject e \<Rightarrow> True | _ \<Rightarrow> False)"

section \<open>Concrete inputs\<close>

text \<open>
  What the platform's parsers return on the strings the examples use: \<open>new URL\<close>
  throws on the empty string and on \<open>bob\<close>, neither being an absolute URL.
\<close>

definition sample_URL :: url_parser where
  "sample_URL s =
     (if s = ''wss://relay.damus.io''
        then Some \<lparr> protocol = ''wss:'', hostname = ''relay.damus.io'' \<rparr>
      else if s = ''wss://r'' then Some \<lparr> protocol = ''wss:'', hostname = ''r'' \<rparr>
      else if s = ''http://x'' then Some \<lparr> protocol = ''http:'', hostname = ''x'' \<rparr>
      else if s = ''http://bad'' then Some \<lparr> protocol = ''http:'', hostname = ''bad'' \<rparr>
      else None)"

definition sample_JSON :: json_parser where
  \<open>sample_JSON s =
     (if s = ''[]'' then Some (JArr [])
      else if s = ''{"name":"a","extra":"b"}''
        then Some (JObj [(''name'', JStr ''a''), (''extra'', JStr ''b'')])
      else if s = ''{"name":"old"}'' then Some (JObj [(''name'', JStr ''old'')])
      else if s = ''{"name":"new"}'' then Some (JObj [(''name'', JStr ''new'')])
      else if s = ''{"name":7}'' then Some (JObj [(''name'', JNum 7)])
      else if s = ''null'' then Some JNull
      else None)\<close>

definition key_a :: string where
  "key_a = replicate 64 (CHR ''a'')"

definition key_b :: string where
  "key_b = replicate 64 (CHR ''b'')"


definition only_name :: "string \<Rightarrow> ProfileMetadata" where
  "only_name s =
     \<lparr> name = Some s, display_name = None, about = None, picture = None, website = None \<rparr>"

definition profile_event :: "string \<Rightarrow> int \<Rightarrow> string \<Rightarrow> NostrEvent" where
  "profile_event author t c =
     \<lparr> kind = 0, content = c, created_at = t, tags = [], event_pubkey = Some author \<rparr>"

text \<open>The service \<open>new RelayService()\<close> returns, before \<open>initialize\<close>.\<close>

definition fresh_service :: RelayService where
  "fresh_service =
     \<lparr> eventStore = None, relayUrls = [''wss://relay.damus.io''], lastActionAt = Map.empty \<rparr>"

text \<open>An event store whose every query delivers the given stream.\<close>

definition store_with :: "packet schedule \<Rightarrow> EventStore" where
  "store_with evs =
     \<lparr> query = Some (\<lambda>flt. evs), query_off_contract = None,
       publish = Some (\<lambda>event. []), publish_off_contract = None,
       store_setRelays = None \<rparr>"

definition service_with :: "packet schedule \<Rightarrow> RelayService" where
  "service_with evs = snd (initialize fresh_service (store_with evs))"


definition sample_event :: NostrEvent where
  "sample_event =
     \<lparr> kind = 1, content = ''hello'', created_at = 1700000000, tags = [],
       event_pubkey = Some key_a \<rparr>"

text \<open>The service after \<open>setRelays([])\<close>: initialized, with no relay configured.\<close>

definition no_relay_service :: RelayService where
  "no_relay_service = snd (setRelays sample_URL (service_with []) [])"



text \<open>Streams that break: at once, and after one profile.\<close>

definition failing :: "packet schedule" where
  "failing = [(10, Error (TransportError ''connection lost''))]"

definition profile_then_error :: "packet schedule" where
  \<open>profile_then_error =
     [(10, Next (Some (profile_event key_a 100 ''{"name":"old"}''))),
      (20, Error (TransportError ''connection lost''))]\<close>



text \<open>
  An event store whose \<open>setRelays\<close> appends a URL to the array it is handed; one whose
  \<open>query\<close> throws; and one whose stream completes inside \<open>subscribe\<close>, as a
  synchronous empty stream does.
\<close>

definition meddling_store :: EventStore where
  "meddling_store =
     \<lparr> query = None, query_off_contract = None, publish = None,
       publish_off_contract = None,
       store_setRelays = Some (\<lambda>urls. (None, urls @ [''http://bad''])) \<rparr>"

definition throwing_store :: EventStore where
  "throwing_store =
     \<lparr> query = None,
       query_off_contract = Some (\<lambda>flt. Throws (TransportError ''query failed'')),
       publish = None, publish_off_contract = None, store_setRelays = None \<rparr>"

definition eager_store :: EventStore where
  "eager_store =
     \<lparr> query = None, query_off_contract = Some (\<lambda>flt. DeliversInside [Complete] []),
       publish = None, publish_off_contract = None, store_setRelays = None \<rparr>"


text \<open>The service initialized with the store that appends a URL to the relay array.\<close>

definition meddled_service :: RelayService where
  "meddled_service = snd (initialize fresh_service meddling_store)"

section \<open>Properties\<close>

lemma validateRelayUrls_ok:
  "validateRelayUrls new_URL urls =
     (if list_all (isValidRelayUrl new_URL) urls then Inr urls else Inl InvalidRelayUrlFormat)"
proof (cases "list_all (isValidRelayUrl new_URL) urls")
  case True
  then have "filter (isValidRelayUrl new_URL) urls = urls"
    by (simp add: list_all_iff)
  with True show ?thesis
    by (simp add: validateRelayUrls_def Let_def)
next
  case False
  then have "length (filter (isValidRelayUrl new_URL) urls) < length urls"
    by (metis list_all_iff length_filter_less)
  moreover from False have "urls \<noteq> []" by auto
  ultimately show ?thesis using False
    by (simp add: validateRelayUrls_def Let_def)
qed

lemma hand_relays_respected:
  "respects_relays es \<Longrightarrow> hand_relays es urls = (None, urls)"
  by (simp add: respects_relays_def)

lemma store_with_respects: "respects_relays (store_with evs)"
  by (simp add: respects_relays_def hand_relays_def store_with_def)

lemma silent_service_eventStore:
  "eventStore (service_with evs) = Some (store_with evs)"
  by (simp add: service_with_def initialize_def hand_relays_def store_with_def
        fresh_service_def)


lemma service_with_lastActionAt: "lastActionAt (service_with evs) = Map.empty"
  by (simp add: service_with_def initialize_def hand_relays_def store_with_def
        fresh_service_def)

lemma sample_relay_valid: "isValidRelayUrl sample_URL ''wss://relay.damus.io''"
  by (simp add: isValidRelayUrl_def sample_URL_def)

lemma sample_http_invalid: "\<not> isValidRelayUrl sample_URL ''http://x''"
  by (simp add: isValidRelayUrl_def sample_URL_def)

lemma meddled_service_simps:
  "eventStore meddled_service = Some meddling_store"
  "relayUrls meddled_service = [''wss://relay.damus.io'', ''http://bad'']"
  by (simp_all add: meddled_service_def initialize_def hand_relays_def meddling_store_def
        fresh_service_def)

text \<open>
  Claim C6 as stated fails in its accepting half: \<open>setRelays\<close> hands the event store the
  very array it has just assigned, and a store that appends to the array it is handed
  leaves the relay set different from the list that was given, although every URL of
  that list is valid.
\<close>

theorem setRelays_store_changes_relay_set:
  "isValidRelayUrl sample_URL ''wss://r''
   \<and> fst (setRelays sample_URL meddled_service [''wss://r'']) = Inr ()
   \<and> getRelays (snd (setRelays sample_URL meddled_service [''wss://r'']))
       = [''wss://r'', ''http://bad'']
   \<and> getRelays (snd (setRelays sample_URL meddled_service [''wss://r''])) \<noteq> [''wss://r'']"
  by (simp add: setRelays_def validateRelayUrls_ok meddled_service_simps hand_relays_def
        meddling_store_def thrown_or_done_def getRelays_def isValidRelayUrl_def sample_URL_def)

text \<open>
  Claim C6, amended. If some URL of the list fails \<open>isValidRelayUrl\<close>, \<open>setRelays\<close>
  throws and the service, its relay set included, is what it was. If every URL passes,
  the relay set is assigned the whole list and this array is handed to the store's
  \<open>setRelays\<close>, if the service has a store with that method: the relay set afterwards
  is what the store leaves of the whole list, never the valid part of a list. It is the
  given list, and the call returns, when there is no store or the store's \<open>setRelays\<close>
  returns normally and leaves the array as it was.
\<close>

theorem setRelays_all_or_nothing:
  "((\<exists>u \<in> set urls. \<not> isValidRelayUrl new_URL u) \<longrightarrow>
      fst (setRelays new_URL svc urls) = Inl InvalidRelayUrlFormat
      \<and> snd (setRelays new_URL svc urls) = svc)
   \<and> ((\<forall>u \<in> set urls. isValidRelayUrl new_URL u) \<longrightarrow>
      getRelays (snd (setRelays new_URL svc urls))
        = (case eventStore svc of None \<Rightarrow> urls | Some es \<Rightarrow> snd (hand_relays es urls)))
   \<and> ((\<forall>u \<in> set urls. isValidRelayUrl new_URL u)
        \<and> (eventStore svc = None \<or> (\<exists>es. eventStore svc = Some es \<and> respects_relays es)) \<longrightarrow>
      fst (setRelays new_URL svc urls) = Inr ()
      \<and> getRelays (snd (setRelays new_URL svc urls)) = urls)"
  by (auto simp: setRelays_def validateRelayUrls_ok list_all_iff getRelays_def
        hand_relays_respected thrown_or_done_def split: option.splits prod.splits)

text \<open>
  Example for C6: on an initialized service a list with one \<open>http\<close> URL is refused
  whole, a valid list is taken.
\<close>

theorem setRelays_all_or_nothing_witness:
  "fst (setRelays sample_URL (service_with []) [''wss://r'', ''http://x''])
     = Inl InvalidRelayUrlFormat
   \<and> snd (setRelays sample_URL (service_with []) [''wss://r'', ''http://x'']) = service_with []
   \<and> fst (setRelays sample_URL (service_with []) [''wss://r'']) = Inr ()
   \<and> getRelays (snd (setRelays sample_URL (service_with []) [''wss://r''])) = [''wss://r'']"
  using setRelays_all_or_nothing
          [of "[''wss://r'', ''http://x'']" sample_URL "service_with []"]
        setRelays_all_or_nothing [of "[''wss://r'']" sample_URL "service_with []"]
        store_with_respects [of "[]"]
  by (simp add: isValidRelayUrl_def sample_URL_def silent_service_eventStore
        hand_relays_respected)

lemma is_object_iff: "is_object v \<longleftrightarrow> truthy v \<and> typeof v = TObject"
  by (cases v) simp_all

lemma string_field_iff:
  "string_field v k = Some s \<longleftrightarrow> get_prop v k = Some (JStr s)"
  by (auto simp: string_field_def split: option.splits json.splits)

text \<open>
  Claim C5. \<open>parseProfileMetadata\<close> is total (nothing it does escapes its \<open>try\<close>).
  It returns \<open>null\<close> exactly when the content is longer than 10000 characters, when
  \<open>JSON.parse\<close> throws, or when the parsed value is not an object, in the sense of the
  source's test: \<open>null\<close>, a boolean, a number or a string (an array passes
  \<open>typeof ... === 'object'\<close> and has none of the keys). Otherwise the metadata holds
  exactly those of \<open>name\<close>, \<open>display_name\<close>, \<open>about\<close>, \<open>picture\<close>, \<open>website\<close> whose
  parsed values are strings, with those values; the metadata has no other field.
\<close>

theorem parseProfileMetadata_spec:
  "(parseProfileMetadata JSON_parse c = None \<longleftrightarrow>
      length c > 10000 \<or> JSON_parse c = None
      \<or> (\<exists>v. JSON_parse c = Some v \<and> \<not> is_object v))
   \<and> (\<forall>v. length c \<le> 10000 \<and> JSON_parse c = Some v \<and> is_object v \<longrightarrow>
        (\<exists>m. parseProfileMetadata JSON_parse c = Some m
           \<and> (\<forall>s. name m = Some s \<longleftrightarrow> get_prop v ''name'' = Some (JStr s))
           \<and> (\<forall>s. display_name m = Some s \<longleftrightarrow> get_prop v ''display_name'' = Some (JStr s))
           \<and> (\<forall>s. about m = Some s \<longleftrightarrow> get_prop v ''about'' = Some (JStr s))
           \<and> (\<forall>s. picture m = Some s \<longleftrightarrow> get_prop v ''picture'' = Some (JStr s))
           \<and> (\<forall>s. website m = Some s \<longleftrightarrow> get_prop v ''website'' = Some (JStr s))))"
  by (auto simp: parseProfileMetadata_def maxProfileContentSize_def is_object_iff
        string_field_iff split: option.splits)

text \<open>
  Example for C5: an unlisted key and a number-valued \<open>name\<close> are dropped; \<open>null\<close>,
  malformed and oversized content give \<open>null\<close>.
\<close>

theorem parseProfileMetadata_spec_witness:
  \<open>parseProfileMetadata sample_JSON ''{"name":"a","extra":"b"}'' = Some (only_name ''a'')
   \<and> parseProfileMetadata sample_JSON ''{"name":7}''
       = Some \<lparr> name = None, display_name = None, about = None, picture = None, website = None \<rparr>
   \<and> parseProfileMetadata sample_JSON ''null'' = None
   \<and> parseProfileMetadata sample_JSON ''{name'' = None
   \<and> parseProfileMetadata sample_JSON (replicate 10001 (CHR ''x'')) = None\<close>
  using parseProfileMetadata_spec [of sample_JSON \<open>''{"name":"a","extra":"b"}''\<close>]
        parseProfileMetadata_spec [of sample_JSON \<open>''null''\<close>]
        parseProfileMetadata_spec [of sample_JSON \<open>replicate 10001 (CHR ''x'')\<close>]
  by (simp add: parseProfileMetadata_def sample_JSON_def maxProfileContentSize_def
        string_field_def only_name_def)



lemma key_a_valid: "isValidPubkey key_a"
  by (simp add: key_a_def isValidPubkey_def hex_pattern_def is_hex_def is_digit_def list_all_iff)

lemma key_a_nonempty: "key_a \<noteq> []"
  by (simp add: key_a_def)



text \<open>
  Claim C4, at an entry with a petname and no relay. The encoder leaves the relay's
  position out, so the petname stands third in the tag, where the decoder reads the
  relay: the decoded entry has the petname as its relay and no petname.
\<close>

theorem follow_list_petname_without_relay:
  "encodeFollowList sample_URL [\<lparr> pubkey = key_a, relay = None, petname = Some ''bob'' \<rparr>]
     = Inr [[''p'', key_a, ''bob'']]
   \<and> decodeFollowTags [[''p'', key_a, ''bob'']]
     = [\<lparr> pubkey = key_a, relay = Some ''bob'', petname = None \<rparr>]
   \<and> decodeFollowTags [[''p'', key_a, ''bob'']]
     \<noteq> [\<lparr> pubkey = key_a, relay = None, petname = Some ''bob'' \<rparr>]"
  using key_a_valid key_a_nonempty
  by (simp add: encodeEntry_def truthy_str_def or_undefined_def js_index_def)

lemma enforceRateLimit_relayUrls:
  "enforceRateLimit svc now action m = (svc', w) \<Longrightarrow> relayUrls svc' = relayUrls svc"
  by (auto simp: enforceRateLimit_def Let_def)


lemma enforceRateLimit_waited:
  "snd (enforceRateLimit svc now action m)
     = max 0 (m - (now - (case lastActionAt svc action of None \<Rightarrow> 0 | Some t \<Rightarrow> t)))"
  by (simp add: enforceRateLimit_def Let_def max_def)




















lemma fresh_service_constructed:
  "new_RelayService sample_URL \<lparr> config_relayUrls = None \<rparr> = Inr fresh_service"
  by (simp add: new_RelayService_def validateRelayUrls_ok defaultRelays_def
        isValidRelayUrl_def sample_URL_def fresh_service_def)

lemma service_with_reachable: "reachable sample_URL respects_relays (service_with evs)"
  unfolding service_with_def
  by (rule reachable.initialized, rule reachable.constructed, rule fresh_service_constructed,
      rule store_with_respects)




lemma race_empty:
  "race ob D [] a0 = perform D (on_timeout ob a0) (initial_race a0)"
  by (simp add: race_def deliver_all_def initial_race_def)

lemma service_with_never_limited:
  "enforceRateLimit (service_with evs) 1700000000000 action 300
     = ((service_with evs)\<lparr>lastActionAt := (lastActionAt (service_with evs))(action \<mapsto> 1700000000000)\<rparr>, 0)"
  by (simp add: enforceRateLimit_def Let_def service_with_lastActionAt)

text \<open>
  Claim C9 as stated fails: on a silent stream the batch read \<open>fetchMultipleProfiles\<close>
  settles after 1000 ms, the single-entity reads after 5000 ms, so the batch deadline is
  the shorter one.
\<close>

theorem batch_deadline_is_shorter:
  "settled_after (fetchMultipleProfiles sample_JSON (service_with []) 1700000000000 [key_a])
     = Some 1000
   \<and> settled_after (fetchProfile sample_JSON (service_with []) 1700000000000 key_a) = Some 5000
   \<and> settled_after (fetchProfileRoleTag (service_with []) 1700000000000 key_a) = Some 5000
   \<and> \<not> fetchProfile_timeoutMs < fetchMultipleProfiles_timeoutMs"
  by (simp add: fetchMultipleProfiles_def fetchProfile_def fetchProfileRoleTag_def
        silent_service_eventStore service_with_never_limited minProfileQueryIntervalMs_def
        store_with_def race_empty raced_def perform_def initial_race_def
        fetchMultipleProfiles_observer_def fetchProfile_observer_def
        fetchProfileRoleTag_observer_def null_on_exit_def
        fetchMultipleProfiles_timeoutMs_def fetchProfile_timeoutMs_def
        fetchProfileRoleTag_timeoutMs_def key_a_def)

text \<open>
  Claim C9, amended. The deadline timers the operations start are fixed: 5000 ms for
  \<open>fetchProfile\<close> and \<open>fetchProfileRoleTag\<close>, 10000 ms for \<open>fetchFollowList\<close> and
  \<open>queryProfiles\<close>, 1000 ms for \<open>fetchMultipleProfiles\<close>; \<open>publishEvent\<close> defaults to
  1000 ms, which is what \<open>publishFollowList\<close> publishes with. The batch read thus has a
  shorter deadline than the single-entity reads.
\<close>

theorem operation_deadlines:
  assumes "eventStore svc = Some es" and "query es = Some query_fn" and "pubkeys \<noteq> []"
  shows "effects (fetchProfile JSON_parse svc now pk)
           = [Queried \<lparr> kinds = [0], authors = Some [pk], limit = Some 1 \<rparr>, TimerStarted 5000]
       \<and> effects (fetchProfileRoleTag svc now pk)
           = [Queried \<lparr> kinds = [0], authors = Some [pk], limit = Some 1 \<rparr>, TimerStarted 5000]
       \<and> effects (fetchFollowList svc now pk)
           = [Queried \<lparr> kinds = [3], authors = Some [pk], limit = Some 1 \<rparr>, TimerStarted 10000]
       \<and> effects (fetchMultipleProfiles JSON_parse svc now pubkeys)
           = [Queried \<lparr> kinds = [0], authors = Some pubkeys, limit = None \<rparr>, TimerStarted 1000]
       \<and> effects (queryProfiles JSON_parse svc now pubkeys max_results)
           = [Queried \<lparr> kinds = [0], authors = Some pubkeys, limit = Some max_results \<rparr>,
              TimerStarted 10000]
       \<and> publishEvent_default_timeoutMs = 1000
       \<and> (\<forall>publish_fn signed. publish es = Some publish_fn \<and> relayUrls svc \<noteq> []
             \<and> encodeFollowList new_URL followList = Inr tgs
             \<and> signEvent \<lparr> kind = 3, content = [], created_at = now div 1000,
                             tags = tgs, event_pubkey = None \<rparr> = Inr signed
           \<longrightarrow> effects (publishFollowList new_URL svc now pk followList signEvent)
               = [Signed \<lparr> kind = 3, content = [], created_at = now div 1000,
                            tags = tgs, event_pubkey = None \<rparr>,
                  Published signed, TimerStarted 1000])"
  using assms
  by (auto simp: fetchProfile_def fetchProfileRoleTag_def fetchFollowList_def
        fetchMultipleProfiles_def queryProfiles_def publishFollowList_def publishEvent_def
        raced_def Let_def
        fetchMultipleProfiles_timeoutMs_def fetchProfile_timeoutMs_def
        fetchProfileRoleTag_timeoutMs_def fetchFollowList_timeoutMs_def
        queryProfiles_timeoutMs_def publishEvent_default_timeoutMs_def setTimeout_delay_def
        split: prod.splits option.splits dest: enforceRateLimit_relayUrls)

text \<open>
  Example for C9: the timers started on an initialized service.
\<close>

theorem operation_deadlines_witness:
  "effects (fetchProfile sample_JSON (service_with []) 1700000000000 key_a)
           = [Queried \<lparr> kinds = [0], authors = Some [key_a], limit = Some 1 \<rparr>, TimerStarted 5000]
   \<and> effects (fetchMultipleProfiles sample_JSON (service_with []) 1700000000000 [key_a])
           = [Queried \<lparr> kinds = [0], authors = Some [key_a], limit = None \<rparr>, TimerStarted 1000]
   \<and> effects (fetchFollowList (service_with []) 1700000000000 key_a)
           = [Queried \<lparr> kinds = [3], authors = Some [key_a], limit = Some 1 \<rparr>, TimerStarted 10000]"
  using operation_deadlines [of "service_with []" "store_with []" "\<lambda>flt. []" "[key_a]"
          sample_JSON 1700000000000 key_a]
  by (simp add: silent_service_eventStore store_with_def)

text \<open>
  Claim C8, amended. With an empty relay set \<open>publishEvent\<close> rejects without calling
  \<open>publish\<close> and without starting the deadline timer, whatever \<open>timeoutMs\<close> is. On an
  uninitialized service it rejects at once; on an initialized one the relay check runs
  after the rate limiter, so the rejection comes \<open>max 0 (750 - (now - last))\<close> ms
  after the call, \<open>last\<close> being the time recorded for the previous publish.
\<close>

theorem publishEvent_without_relays:
  assumes "relayUrls svc = []"
  shows "(eventStore svc = None \<longrightarrow>
            promise (publishEvent svc now event timeoutMs) = Rejected NotInitialized
            \<and> settled_after (publishEvent svc now event timeoutMs) = Some 0)
       \<and> (eventStore svc \<noteq> None \<longrightarrow>
            promise (publishEvent svc now event timeoutMs) = Rejected NoRelaysConfigured
            \<and> settled_after (publishEvent svc now event timeoutMs)
                = Some (max 0 (750 - (now - (case lastActionAt svc ''publish'' of
                                               None \<Rightarrow> 0 | Some t \<Rightarrow> t)))))
       \<and> effects (publishEvent svc now event timeoutMs) = []"
proof (cases "eventStore svc")
  case None
  then show ?thesis by (simp add: publishEvent_def settle_now_def)
next
  case (Some es)
  obtain svc' w where rl: "enforceRateLimit svc now ''publish'' minPublishIntervalMs = (svc', w)"
    by (cases "enforceRateLimit svc now ''publish'' minPublishIntervalMs")
  from rl assms have "relayUrls svc' = []"
    by (simp add: enforceRateLimit_relayUrls)
  moreover from enforceRateLimit_waited [of svc now "''publish''" minPublishIntervalMs] rl
  have "w = max 0 (750 - (now - (case lastActionAt svc ''publish'' of
                                   None \<Rightarrow> 0 | Some t \<Rightarrow> t)))"
    by (simp add: minPublishIntervalMs_def)
  ultimately show ?thesis using Some rl
    by (simp add: publishEvent_def settle_now_def)
qed

lemma no_relay_service_eq:
  "no_relay_service = (service_with [])\<lparr>relayUrls := []\<rparr>"
  by (simp add: no_relay_service_def setRelays_def validateRelayUrls_ok
        silent_service_eventStore hand_relays_def store_with_def)

lemma no_relay_service_reachable: "reachable sample_URL respects_relays no_relay_service"
  unfolding no_relay_service_def
  by (rule reachable.relays_set, rule service_with_reachable)

text \<open>
  Claim C8 as stated fails: a second \<open>publishEvent\<close> right after a first one, with no
  relay configured and \<open>timeoutMs = 100\<close>, rejects only after the rate limiter has slept
  750 ms, later than the deadline it was given.
\<close>

theorem publishEvent_without_relays_waits:
  "relayUrls (service (publishEvent no_relay_service 1700000000000 sample_event 1000)) = []
   \<and> promise (publishEvent
        (service (publishEvent no_relay_service 1700000000000 sample_event 1000))
        1700000000000 sample_event 100) = Rejected NoRelaysConfigured
   \<and> settled_after (publishEvent
        (service (publishEvent no_relay_service 1700000000000 sample_event 1000))
        1700000000000 sample_event 100) = Some 750"
  by (simp add: publishEvent_def no_relay_service_eq silent_service_eventStore
        enforceRateLimit_def Let_def settle_now_def minPublishIntervalMs_def
        service_with_lastActionAt)

text \<open>
  Example for C8: the first publish on a service without relays rejects at once.
\<close>

theorem publishEvent_without_relays_witness:
  "relayUrls no_relay_service = []
   \<and> promise (publishEvent no_relay_service 1700000000000 sample_event 1000)
       = Rejected NoRelaysConfigured
   \<and> settled_after (publishEvent no_relay_service 1700000000000 sample_event 1000) = Some 0
   \<and> effects (publishEvent no_relay_service 1700000000000 sample_event 1000) = []"
proof -
  have r: "relayUrls no_relay_service = []"
    by (simp add: no_relay_service_eq)
  have e: "eventStore no_relay_service \<noteq> None"
    by (simp add: no_relay_service_eq silent_service_eventStore)
  have l: "lastActionAt no_relay_service ''publish'' = None"
    by (simp add: no_relay_service_eq service_with_lastActionAt)
  from publishEvent_without_relays [OF r, of 1700000000000 sample_event 1000] e l r
  show ?thesis by simp
qed

subsection \<open>The race engine\<close>

lemma perform_Nil: "perform t [] s = s"
  by (simp add: perform_def)

lemma perform_Cons: "perform t (x # xs) s = perform t xs (act t x s)"
  by (simp add: perform_def)

lemma act_collected: "collected (act t x s) = collected s"
  by (cases x) simp_all

lemma perform_collected: "collected (perform t xs s) = collected s"
  by (induction xs arbitrary: s) (simp_all add: perform_Nil perform_Cons act_collected)

lemma act_settled:
  "promise_state s \<noteq> Pending \<Longrightarrow>
     promise_state (act t x s) = promise_state s \<and> settledAt (act t x s) = settledAt s"
  by (cases x) simp_all

lemma perform_settled:
  "promise_state s \<noteq> Pending \<Longrightarrow>
     promise_state (perform t xs s) = promise_state s \<and> settledAt (perform t xs s) = settledAt s"
proof (induction xs arbitrary: s)
  case Nil
  then show ?case by (simp add: perform_Nil)
next
  case (Cons x xs)
  from Cons.prems have "promise_state (act t x s) \<noteq> Pending"
    by (simp add: act_settled)
  from Cons.IH [OF this] Cons.prems show ?case
    by (simp add: perform_Cons act_settled)
qed

lemma act_unsubscribed: "unsubscribed s \<Longrightarrow> unsubscribed (act t x s)"
  by (cases x) simp_all

lemma perform_unsubscribed: "unsubscribed s \<Longrightarrow> unsubscribed (perform t xs s)"
  by (induction xs arbitrary: s) (simp_all add: perform_Nil perform_Cons act_unsubscribed)

lemma perform_Unsubscribe:
  "Unsubscribe \<in> set xs \<Longrightarrow> unsubscribed (perform t xs s)"
proof (induction xs arbitrary: s)
  case Nil
  then show ?case by simp
next
  case (Cons x xs)
  show ?case
  proof (cases "x = Unsubscribe")
    case True
    then show ?thesis
      by (simp add: perform_Cons perform_unsubscribed)
  next
    case False
    with Cons show ?thesis
      by (simp add: perform_Cons)
  qed
qed

lemma deliver_Src_unsubscribed: "unsubscribed s \<Longrightarrow> deliver ob t (Src n) s = s"
  by simp

lemma deliver_all_Nil: "deliver_all ob [] s = s"
  by (simp add: deliver_all_def)

lemma deliver_all_Cons:
  "deliver_all ob (ev # evs) s = deliver_all ob evs (deliver ob (fst ev) (Src (snd ev)) s)"
  by (simp add: deliver_all_def case_prod_beta)

lemma deliver_all_unsubscribed: "unsubscribed s \<Longrightarrow> deliver_all ob evs s = s"
  by (induction evs) (simp_all add: deliver_all_Nil deliver_all_Cons)

lemma deliver_settled:
  "promise_state s \<noteq> Pending \<Longrightarrow>
     promise_state (deliver ob t cb s) = promise_state s
     \<and> settledAt (deliver ob t cb s) = settledAt s"
  by (cases cb)
     (auto simp: perform_settled perform_collected split: notification.splits prod.splits)

lemma deliver_all_settled:
  "promise_state s \<noteq> Pending \<Longrightarrow>
     promise_state (deliver_all ob evs s) = promise_state s
     \<and> settledAt (deliver_all ob evs s) = settledAt s"
proof (induction evs arbitrary: s)
  case Nil
  then show ?case by (simp add: deliver_all_Nil)
next
  case (Cons ev evs)
  from Cons.prems have "promise_state (deliver ob (fst ev) (Src (snd ev)) s) \<noteq> Pending"
    by (simp add: deliver_settled del: deliver.simps)
  from Cons.IH [OF this] Cons.prems show ?case
    by (simp add: deliver_all_Cons deliver_settled del: deliver.simps)
qed

text \<open>A stream on which the observer never acts only feeds the collection.\<close>

lemma deliver_quiet:
  assumes "snd (on_next ob (collected s) p) = []"
  shows "deliver ob t (Src (Next p)) s
           = (if unsubscribed s then s else s\<lparr>collected := fst (on_next ob (collected s) p)\<rparr>)"
  using assms by (cases "on_next ob (collected s) p") (simp add: perform_Nil)




lemma initial_race_simps:
  "collected (initial_race a0) = a0" "promise_state (initial_race a0) = Pending"
  "\<not> unsubscribed (initial_race a0)" "settledAt (initial_race a0) = None"
  by (simp_all add: initial_race_def)

text \<open>Observers that settle only when the stream ends or the timer fires.\<close>

lemma deliver_all_collecting:
  assumes quiet: "\<And>a p. snd (on_next ob a p) = []"
    and compl: "\<And>a. on_complete ob a = [Unsubscribe, Resolve (f a)]"
    and err: "\<And>a e. on_error ob a e = [Unsubscribe, Resolve (f a)]"
    and s: "\<not> unsubscribed s" "promise_state s = Pending"
  shows "collected (deliver_all ob evs s)
           = fold (\<lambda>p a. fst (on_next ob a p)) (leading_packets (map snd evs)) (collected s)
         \<and> (promise_state (deliver_all ob evs s) = Pending
            \<or> promise_state (deliver_all ob evs s)
                 = Resolved (f (collected (deliver_all ob evs s))))"
  using s
proof (induction evs arbitrary: s)
  case Nil
  then show ?case by (simp add: deliver_all_Nil)
next
  case (Cons ev evs)
  show ?case
  proof (cases "snd ev")
    case (Next p)
    let ?s' = "s\<lparr>collected := fst (on_next ob (collected s) p)\<rparr>"
    have d: "deliver ob (fst ev) (Src (Next p)) s = ?s'"
      using Cons.prems quiet by (simp add: deliver_quiet del: deliver.simps)
    have "\<not> unsubscribed ?s'" "promise_state ?s' = Pending"
      using Cons.prems by simp_all
    from Cons.IH [OF this] show ?thesis
      by (auto simp add: deliver_all_Cons d Next simp del: deliver.simps)
  next
    case Complete
    let ?s' = "deliver ob (fst ev) (Src (snd ev)) s"
    have "unsubscribed ?s'" "collected ?s' = collected s"
      "promise_state ?s' = Resolved (f (collected s))"
      using Complete Cons.prems
      by (simp_all add: compl perform_Cons perform_Nil)
    then show ?thesis
      by (simp add: deliver_all_Cons deliver_all_unsubscribed Complete del: deliver.simps)
  next
    case (Error e)
    let ?s' = "deliver ob (fst ev) (Src (snd ev)) s"
    have "unsubscribed ?s'" "collected ?s' = collected s"
      "promise_state ?s' = Resolved (f (collected s))"
      using Error Cons.prems
      by (simp_all add: err perform_Cons perform_Nil)
    then show ?thesis
      by (simp add: deliver_all_Cons deliver_all_unsubscribed Error del: deliver.simps)
  qed
qed

lemma race_collecting:
  assumes quiet: "\<And>a p. snd (on_next ob a p) = []"
    and compl: "\<And>a. on_complete ob a = [Unsubscribe, Resolve (f a)]"
    and err: "\<And>a e. on_error ob a e = [Unsubscribe, Resolve (f a)]"
    and tmo: "\<And>a. on_timeout ob a = [Unsubscribe, Resolve (f a)]"
  shows "promise_state (race ob D evs a0)
           = Resolved (f (fold (\<lambda>p a. fst (on_next ob a p)) (delivered D evs) a0))"
proof -
  let ?s1 = "deliver_all ob (takeWhile (before_deadline D) evs) (initial_race a0)"
  let ?A = "fold (\<lambda>p a. fst (on_next ob a p)) (delivered D evs) a0"
  have init: "\<not> unsubscribed (initial_race a0)" "promise_state (initial_race a0) = Pending"
    by (simp_all add: initial_race_def)
  from deliver_all_collecting [where ob = ob and f = f
      and evs = "takeWhile (before_deadline D) evs", OF quiet compl err init]
  have c: "collected ?s1 = ?A"
    and p: "promise_state ?s1 = Pending \<or> promise_state ?s1 = Resolved (f ?A)"
    by (auto simp: delivered_def initial_race_simps)
  let ?s2 = "deliver ob D Timer ?s1"
  have u: "unsubscribed ?s2"
    by (simp add: perform_Unsubscribe tmo)
  have "promise_state ?s2 = Resolved (f ?A)"
  proof (cases "promise_state ?s1 = Pending")
    case True
    then show ?thesis
      by (simp add: tmo perform_Cons perform_Nil c)
  next
    case False
    with p have "promise_state ?s1 = Resolved (f ?A)" by simp
    moreover from False have "promise_state ?s2 = promise_state ?s1"
      by (simp add: deliver_settled del: deliver.simps)
    ultimately show ?thesis by simp
  qed
  moreover have "race ob D evs a0 = ?s2"
    using u by (simp add: race_def deliver_all_unsubscribed del: deliver.simps)
  ultimately show ?thesis by simp
qed


lemma fetchMultipleProfiles_quiet:
  "snd (on_next (fetchMultipleProfiles_observer JSON_parse) a p) = []"
  by (simp add: fetchMultipleProfiles_observer_def fetchMultipleProfiles_next_def
        split: option.splits)

lemma queryProfiles_quiet:
  "snd (on_next (queryProfiles_observer JSON_parse) a p) = []"
  by (simp add: queryProfiles_observer_def queryProfiles_next_def Let_def
        split: option.splits)

lemma fetchMultipleProfiles_race:
  "promise_state (race (fetchMultipleProfiles_observer JSON_parse) D evs Map.empty)
     = Resolved (collect_profiles JSON_parse (delivered D evs))"
  using race_collecting [where ob = "fetchMultipleProfiles_observer JSON_parse"
      and f = "\<lambda>a. a" and D = D and evs = evs and ?a0.0 = Map.empty,
      OF fetchMultipleProfiles_quiet]
  by (simp add: fetchMultipleProfiles_observer_def collect_profiles_def)

lemma queryProfiles_race:
  "promise_state (race (queryProfiles_observer JSON_parse) D evs Map.empty)
     = Resolved (metadata_only (index_profiles JSON_parse (delivered D evs)))"
  using race_collecting [where ob = "queryProfiles_observer JSON_parse"
      and f = metadata_only and D = D and evs = evs and ?a0.0 = Map.empty,
      OF queryProfiles_quiet]
  by (simp add: queryProfiles_observer_def index_profiles_def)







lemma key_a_truthy: "truthy_str (Some key_a)"
  by (simp add: truthy_str_def key_a_nonempty)

lemma parse_old:
  \<open>parseProfileMetadata sample_JSON ''{"name":"old"}'' = Some (only_name ''old'')\<close>
  by (simp add: parseProfileMetadata_def sample_JSON_def maxProfileContentSize_def
        string_field_def only_name_def)








subsection \<open>Reads never reject\<close>

lemma act_no_reject:
  assumes "\<not> is_reject x" and "\<forall>e. promise_state s \<noteq> Rejected e"
  shows "\<forall>e. promise_state (act t x s) \<noteq> Rejected e"
  using assms by (cases x) (simp_all add: is_reject_def)

lemma perform_no_reject:
  assumes "\<forall>x \<in> set xs. \<not> is_reject x" and "\<forall>e. promise_state s \<noteq> Rejected e"
  shows "\<forall>e. promise_state (perform t xs s) \<noteq> Rejected e"
  using assms
proof (induction xs arbitrary: s)
  case Nil
  then show ?case by (simp add: perform_Nil)
next
  case (Cons x xs)
  from Cons.prems have "\<forall>e. promise_state (act t x s) \<noteq> Rejected e"
    by (simp add: act_no_reject)
  with Cons show ?case
    by (simp add: perform_Cons)
qed

lemma deliver_no_reject:
  assumes nx: "\<And>a p. \<forall>x \<in> set (snd (on_next ob a p)). \<not> is_reject x"
    and co: "\<And>a. \<forall>x \<in> set (on_complete ob a). \<not> is_reject x"
    and er: "\<And>a e. \<forall>x \<in> set (on_error ob a e). \<not> is_reject x"
    and s: "\<forall>e. promise_state s \<noteq> Rejected e"
  shows "\<forall>e. promise_state (deliver ob t (Src n) s) \<noteq> Rejected e"
proof (cases "unsubscribed s")
  case True
  with s show ?thesis by simp
next
  case False
  show ?thesis
  proof (cases n)
    case (Next p)
    obtain a xs where ax: "on_next ob (collected s) p = (a, xs)"
      by (cases "on_next ob (collected s) p")
    with nx [of "collected s" p] have "\<forall>x \<in> set xs. \<not> is_reject x" by simp
    moreover from s have "\<forall>e. promise_state (s\<lparr>collected := a\<rparr>) \<noteq> Rejected e" by simp
    ultimately have "\<forall>e. promise_state (perform t xs (s\<lparr>collected := a\<rparr>)) \<noteq> Rejected e"
      by (rule perform_no_reject)
    with False Next ax show ?thesis by simp
  next
    case Complete
    from perform_no_reject [OF co s] False Complete show ?thesis by simp
  next
    case (Error e)
    from perform_no_reject [OF er s] False Error show ?thesis by simp
  qed
qed

lemma deliver_all_no_reject:
  assumes nx: "\<And>a p. \<forall>x \<in> set (snd (on_next ob a p)). \<not> is_reject x"
    and co: "\<And>a. \<forall>x \<in> set (on_complete ob a). \<not> is_reject x"
    and er: "\<And>a e. \<forall>x \<in> set (on_error ob a e). \<not> is_reject x"
    and s: "\<forall>e. promise_state s \<noteq> Rejected e"
  shows "\<forall>e. promise_state (deliver_all ob evs s) \<noteq> Rejected e"
  using s
proof (induction evs arbitrary: s)
  case Nil
  then show ?case by (simp add: deliver_all_Nil)
next
  case (Cons ev evs)
  from deliver_no_reject [where ob = ob, OF nx co er Cons.prems]
  have "\<forall>e. promise_state (deliver ob (fst ev) (Src (snd ev)) s) \<noteq> Rejected e" .
  from Cons.IH [OF this] show ?case
    by (simp add: deliver_all_Cons del: deliver.simps)
qed

text \<open>
  An observer that never calls \<open>reject\<close> and whose timer callback resolves: the race
  ends resolved, whatever the stream does.
\<close>

lemma race_resolves:
  assumes nx: "\<And>a p. \<forall>x \<in> set (snd (on_next ob a p)). \<not> is_reject x"
    and co: "\<And>a. \<forall>x \<in> set (on_complete ob a). \<not> is_reject x"
    and er: "\<And>a e. \<forall>x \<in> set (on_error ob a e). \<not> is_reject x"
    and tm: "\<And>a. \<exists>v. on_timeout ob a = [Unsubscribe, Resolve v]"
  shows "\<exists>v. promise_state (race ob D evs a0) = Resolved v"
proof -
  let ?s1 = "deliver_all ob (takeWhile (before_deadline D) evs) (initial_race a0)"
  let ?s2 = "deliver ob D Timer ?s1"
  have "\<forall>e. promise_state (initial_race a0) \<noteq> Rejected e"
    by (simp add: initial_race_simps)
  from deliver_all_no_reject [where ob = ob, OF nx co er this]
  have s1: "\<forall>e. promise_state ?s1 \<noteq> Rejected e" .
  obtain v where v: "on_timeout ob (collected ?s1) = [Unsubscribe, Resolve v]"
    using tm by blast
  have "\<exists>w. promise_state ?s2 = Resolved w"
  proof (cases "promise_state ?s1")
    case Pending
    with v show ?thesis by (simp add: perform_Cons perform_Nil)
  next
    case (Resolved w)
    then have "promise_state ?s2 = promise_state ?s1"
      by (simp add: deliver_settled del: deliver.simps)
    with Resolved show ?thesis by simp
  next
    case (Rejected e)
    with s1 show ?thesis by simp
  qed
  then obtain w where w: "promise_state ?s2 = Resolved w" ..
  then have "promise_state ?s2 \<noteq> Pending" by simp
  from deliver_all_settled [OF this, where ob = ob
      and evs = "dropWhile (before_deadline D) evs"] w
  have "promise_state (race ob D evs a0) = Resolved w"
    by (simp add: race_def del: deliver.simps)
  then show ?thesis ..
qed

lemma fetchProfile_race_resolves:
  "\<exists>v. promise_state (race (fetchProfile_observer JSON_parse) D evs a0) = Resolved v"
  by (rule race_resolves)
     (auto simp: fetchProfile_observer_def fetchProfile_next_def null_on_exit_def is_reject_def
        split: option.splits)

lemma fetchProfileRoleTag_race_resolves:
  "\<exists>v. promise_state (race fetchProfileRoleTag_observer D evs a0) = Resolved v"
  by (rule race_resolves)
     (auto simp: fetchProfileRoleTag_observer_def fetchProfileRoleTag_next_def null_on_exit_def
        is_reject_def split: option.splits)

lemma fetchFollowList_race_resolves:
  "\<exists>v. promise_state (race fetchFollowList_observer D evs a0) = Resolved v"
  by (rule race_resolves)
     (auto simp: fetchFollowList_observer_def fetchFollowList_next_def is_reject_def
        split: option.splits)

lemma fetchProfile_resolves:
  "eventStore svc = Some es \<Longrightarrow> queries_in_contract es \<Longrightarrow>
     \<exists>v. promise (fetchProfile JSON_parse svc now pk) = Resolved v"
  by (auto simp: fetchProfile_def settle_now_def raced_def Let_def fetchProfile_race_resolves
        off_contract_read_def queries_in_contract_def split: prod.splits option.splits)

lemma fetchProfile_uninitialized:
  "eventStore svc = None \<Longrightarrow> promise (fetchProfile JSON_parse svc now pk) = Rejected NotInitialized"
  by (simp add: fetchProfile_def settle_now_def)

lemma fetchProfileRoleTag_resolves:
  "eventStore svc = Some es \<Longrightarrow> queries_in_contract es \<Longrightarrow>
     \<exists>v. promise (fetchProfileRoleTag svc now pk) = Resolved v"
  by (auto simp: fetchProfileRoleTag_def settle_now_def raced_def Let_def fetchProfileRoleTag_race_resolves
        off_contract_read_def queries_in_contract_def split: prod.splits option.splits)

lemma fetchProfileRoleTag_uninitialized:
  "eventStore svc = None \<Longrightarrow> promise (fetchProfileRoleTag svc now pk) = Rejected NotInitialized"
  by (simp add: fetchProfileRoleTag_def settle_now_def)

lemma fetchFollowList_resolves:
  "eventStore svc = Some es \<Longrightarrow> queries_in_contract es \<Longrightarrow>
     \<exists>v. promise (fetchFollowList svc now pk) = Resolved v"
  by (auto simp: fetchFollowList_def settle_now_def raced_def Let_def fetchFollowList_race_resolves
        off_contract_read_def queries_in_contract_def split: prod.splits option.splits)

lemma fetchFollowList_uninitialized:
  "eventStore svc = None \<Longrightarrow> promise (fetchFollowList svc now pk) = Rejected NotInitialized"
  by (simp add: fetchFollowList_def settle_now_def)

lemma fetchMultipleProfiles_resolves:
  "eventStore svc = Some es \<Longrightarrow> queries_in_contract es \<Longrightarrow>
     \<exists>v. promise (fetchMultipleProfiles JSON_parse svc now pubkeys) = Resolved v"
  by (auto simp: fetchMultipleProfiles_def settle_now_def raced_def Let_def fetchMultipleProfiles_race
        off_contract_read_def queries_in_contract_def split: prod.splits option.splits)

lemma fetchMultipleProfiles_uninitialized:
  "eventStore svc = None \<Longrightarrow> promise (fetchMultipleProfiles JSON_parse svc now pubkeys) = Rejected NotInitialized"
  by (simp add: fetchMultipleProfiles_def settle_now_def)

lemma queryProfiles_resolves:
  "eventStore svc = Some es \<Longrightarrow> queries_in_contract es \<Longrightarrow>
     \<exists>v. promise (queryProfiles JSON_parse svc now pubkeys max_results) = Resolved v"
  by (auto simp: queryProfiles_def settle_now_def raced_def Let_def queryProfiles_race
        off_contract_read_def queries_in_contract_def split: prod.splits option.splits)

lemma queryProfiles_uninitialized:
  "eventStore svc = None \<Longrightarrow> promise (queryProfiles JSON_parse svc now pubkeys max_results) = Rejected NotInitialized"
  by (simp add: queryProfiles_def settle_now_def)

text \<open>
  Claim C2, amended. Before \<open>initialize\<close> every read (\<open>fetchProfile\<close>,
  \<open>fetchProfileRoleTag\<close>, \<open>fetchFollowList\<close>, \<open>fetchMultipleProfiles\<close>, \<open>queryProfiles\<close>)
  rejects with the not-initialized error. On a service initialized with an event store
  whose \<open>query(filter).subscribe(...)\<close> returns without throwing and whose streams call
  the observer only after \<open>subscribe\<close> has returned, the promise of every read ends
  resolved and never rejected, for every input and every such stream. When the promise
  is still pending and the stream errors or the timer fires, \<open>fetchProfile\<close> and
  \<open>fetchProfileRoleTag\<close> resolve with \<open>null\<close>, \<open>fetchFollowList\<close> with the empty list,
  and \<open>fetchMultipleProfiles\<close> and \<open>queryProfiles\<close> with the profiles collected so far.
\<close>

theorem reads_never_reject:
  "(eventStore svc = None \<longrightarrow>
      promise (fetchProfile JSON_parse svc now pk) = Rejected NotInitialized
      \<and> promise (fetchProfileRoleTag svc now pk) = Rejected NotInitialized
      \<and> promise (fetchFollowList svc now pk) = Rejected NotInitialized
      \<and> promise (fetchMultipleProfiles JSON_parse svc now pubkeys) = Rejected NotInitialized
      \<and> promise (queryProfiles JSON_parse svc now pubkeys max_results)
          = Rejected NotInitialized)
   \<and> (eventStore svc = Some es \<and> queries_in_contract es \<longrightarrow>
      (\<exists>v. promise (fetchProfile JSON_parse svc now pk) = Resolved v)
      \<and> (\<exists>v. promise (fetchProfileRoleTag svc now pk) = Resolved v)
      \<and> (\<exists>v. promise (fetchFollowList svc now pk) = Resolved v)
      \<and> (\<exists>v. promise (fetchMultipleProfiles JSON_parse svc now pubkeys) = Resolved v)
      \<and> (\<exists>v. promise (queryProfiles JSON_parse svc now pubkeys max_results) = Resolved v))
   \<and> (promise_state s1 = Pending \<and> \<not> unsubscribed s1 \<and> (cb = Timer \<or> cb = Src (Error e)) \<longrightarrow>
        promise_state (deliver (fetchProfile_observer JSON_parse) t cb s1) = Resolved None)
   \<and> (promise_state s2 = Pending \<and> \<not> unsubscribed s2 \<and> (cb = Timer \<or> cb = Src (Error e)) \<longrightarrow>
        promise_state (deliver fetchProfileRoleTag_observer t cb s2) = Resolved None)
   \<and> (promise_state s3 = Pending \<and> \<not> unsubscribed s3 \<and> (cb = Timer \<or> cb = Src (Error e)) \<longrightarrow>
        promise_state (deliver fetchFollowList_observer t cb s3) = Resolved [])
   \<and> (promise_state s4 = Pending \<and> \<not> unsubscribed s4 \<and> (cb = Timer \<or> cb = Src (Error e)) \<longrightarrow>
        promise_state (deliver (fetchMultipleProfiles_observer JSON_parse) t cb s4) = Resolved (collected s4))
   \<and> (promise_state s5 = Pending \<and> \<not> unsubscribed s5 \<and> (cb = Timer \<or> cb = Src (Error e)) \<longrightarrow>
        promise_state (deliver (queryProfiles_observer JSON_parse) t cb s5) = Resolved (metadata_only (collected s5)))"
proof -
  have "(promise_state s1 = Pending \<and> \<not> unsubscribed s1 \<and> (cb = Timer \<or> cb = Src (Error e)) \<longrightarrow>
          promise_state (deliver (fetchProfile_observer JSON_parse) t cb s1) = Resolved None)"
    by (auto simp: fetchProfile_observer_def null_on_exit_def perform_Cons perform_Nil)
  moreover
  have "(promise_state s2 = Pending \<and> \<not> unsubscribed s2 \<and> (cb = Timer \<or> cb = Src (Error e)) \<longrightarrow>
          promise_state (deliver fetchProfileRoleTag_observer t cb s2) = Resolved None)"
    by (auto simp: fetchProfileRoleTag_observer_def null_on_exit_def perform_Cons perform_Nil)
  moreover
  have "(promise_state s3 = Pending \<and> \<not> unsubscribed s3 \<and> (cb = Timer \<or> cb = Src (Error e)) \<longrightarrow>
          promise_state (deliver fetchFollowList_observer t cb s3) = Resolved [])"
    by (auto simp: fetchFollowList_observer_def perform_Cons perform_Nil)
  moreover
  have "(promise_state s4 = Pending \<and> \<not> unsubscribed s4 \<and> (cb = Timer \<or> cb = Src (Error e)) \<longrightarrow>
          promise_state (deliver (fetchMultipleProfiles_observer JSON_parse) t cb s4) = Resolved (collected s4))"
    by (auto simp: fetchMultipleProfiles_observer_def perform_Cons perform_Nil)
  moreover
  have "(promise_state s5 = Pending \<and> \<not> unsubscribed s5 \<and> (cb = Timer \<or> cb = Src (Error e)) \<longrightarrow>
          promise_state (deliver (queryProfiles_observer JSON_parse) t cb s5) = Resolved (metadata_only (collected s5)))"
    by (auto simp: queryProfiles_observer_def perform_Cons perform_Nil)
  moreover
  have "eventStore svc = None \<longrightarrow>
      promise (fetchProfile JSON_parse svc now pk) = Rejected NotInitialized
      \<and> promise (fetchProfileRoleTag svc now pk) = Rejected NotInitialized
      \<and> promise (fetchFollowList svc now pk) = Rejected NotInitialized
      \<and> promise (fetchMultipleProfiles JSON_parse svc now pubkeys) = Rejected NotInitialized
      \<and> promise (queryProfiles JSON_parse svc now pubkeys max_results)
          = Rejected NotInitialized"
    by (simp add: fetchProfile_uninitialized fetchProfileRoleTag_uninitialized
          fetchFollowList_uninitialized fetchMultipleProfiles_uninitialized
          queryProfiles_uninitialized)
  moreover
  have "eventStore svc = Some es \<and> queries_in_contract es \<longrightarrow>
      (\<exists>v. promise (fetchProfile JSON_parse svc now pk) = Resolved v)
      \<and> (\<exists>v. promise (fetchProfileRoleTag svc now pk) = Resolved v)
      \<and> (\<exists>v. promise (fetchFollowList svc now pk) = Resolved v)
      \<and> (\<exists>v. promise (fetchMultipleProfiles JSON_parse svc now pubkeys) = Resolved v)
      \<and> (\<exists>v. promise (queryProfiles JSON_parse svc now pubkeys max_results) = Resolved v)"
  proof
    assume "eventStore svc = Some es \<and> queries_in_contract es"
    then have a: "eventStore svc = Some es" and b: "queries_in_contract es"
      by simp_all
    from fetchProfile_resolves [OF a b] fetchProfileRoleTag_resolves [OF a b]
      fetchFollowList_resolves [OF a b] fetchMultipleProfiles_resolves [OF a b]
      queryProfiles_resolves [OF a b]
    show "(\<exists>v. promise (fetchProfile JSON_parse svc now pk) = Resolved v)
      \<and> (\<exists>v. promise (fetchProfileRoleTag svc now pk) = Resolved v)
      \<and> (\<exists>v. promise (fetchFollowList svc now pk) = Resolved v)
      \<and> (\<exists>v. promise (fetchMultipleProfiles JSON_parse svc now pubkeys) = Resolved v)
      \<and> (\<exists>v. promise (queryProfiles JSON_parse svc now pubkeys max_results) = Resolved v)"
      by blast
  qed
  ultimately show ?thesis
    by blast
qed

lemma profile_then_error_collected:
  "collect_profiles sample_JSON (delivered 1000 profile_then_error) key_a
     = Some (only_name ''old'')"
  by (simp add: collect_profiles_def delivered_def profile_then_error_def before_deadline_def
        fetchMultipleProfiles_next_def profile_event_def key_a_truthy parse_old)

lemma off_contract_services:
  "eventStore (snd (initialize fresh_service throwing_store)) = Some throwing_store"
  "eventStore (snd (initialize fresh_service eager_store)) = Some eager_store"
  by (simp_all add: initialize_def hand_relays_def throwing_store_def eager_store_def)

lemma off_contract_stores:
  "query throwing_store = None"
  "query_off_contract throwing_store = Some (\<lambda>flt. Throws (TransportError ''query failed''))"
  "query eager_store = None"
  "query_off_contract eager_store = Some (\<lambda>flt. DeliversInside [Complete] [])"
  by (simp_all add: throwing_store_def eager_store_def)

text \<open>
  Claim C2 as stated fails four times: before \<open>initialize\<close> a read rejects with the
  not-initialized error; a batch read whose stream errors after one profile resolves
  with the map holding that profile, not with an empty map; a read rejects when the
  store's \<open>query\<close> throws; and a read rejects with a \<open>ReferenceError\<close> when the stream
  completes inside \<open>subscribe\<close>, where the callback reaches \<open>subscription.unsubscribe()\<close>
  before \<open>subscription\<close> is assigned.
\<close>

theorem reads_reject_or_keep_partial_result:
  "promise (fetchProfile sample_JSON fresh_service 1700000000000 key_a) = Rejected NotInitialized
   \<and> promise (fetchFollowList fresh_service 1700000000000 key_a) = Rejected NotInitialized
   \<and> promise (fetchMultipleProfiles sample_JSON (service_with profile_then_error)
        1700000000000 [key_a])
       = Resolved (collect_profiles sample_JSON (delivered 1000 profile_then_error))
   \<and> collect_profiles sample_JSON (delivered 1000 profile_then_error) key_a
       = Some (only_name ''old'')
   \<and> promise (fetchMultipleProfiles sample_JSON (service_with profile_then_error)
        1700000000000 [key_a]) \<noteq> Resolved Map.empty
   \<and> promise (fetchProfile sample_JSON (snd (initialize fresh_service throwing_store))
        1700000000000 key_a) = Rejected (TransportError ''query failed'')
   \<and> promise (fetchFollowList (snd (initialize fresh_service eager_store))
        1700000000000 key_a) = Rejected ReferenceError"
proof -
  have p: "promise (fetchMultipleProfiles sample_JSON (service_with profile_then_error)
        1700000000000 [key_a])
       = Resolved (collect_profiles sample_JSON (delivered 1000 profile_then_error))"
    by (simp add: fetchMultipleProfiles_def silent_service_eventStore store_with_def raced_def
          fetchMultipleProfiles_race fetchMultipleProfiles_timeoutMs_def split: prod.splits)
  have "collect_profiles sample_JSON (delivered 1000 profile_then_error) \<noteq> Map.empty"
    using profile_then_error_collected by (metis option.distinct(1))
  with p have n: "promise (fetchMultipleProfiles sample_JSON (service_with profile_then_error)
        1700000000000 [key_a]) \<noteq> Resolved Map.empty"
    by simp
  have t: "promise (fetchProfile sample_JSON (snd (initialize fresh_service throwing_store))
        1700000000000 key_a) = Rejected (TransportError ''query failed'')"
    by (simp add: fetchProfile_def off_contract_services off_contract_stores
          off_contract_read_def raced_def initial_race_def split: prod.splits)
  have e: "promise (fetchFollowList (snd (initialize fresh_service eager_store))
        1700000000000 key_a) = Rejected ReferenceError"
    by (simp add: fetchFollowList_def off_contract_services off_contract_stores
          off_contract_read_def raced_def initial_race_def fetchFollowList_observer_def
          perform_Nil split: prod.splits)
  from p n t e profile_then_error_collected show ?thesis
    by (simp add: fetchProfile_def fetchFollowList_def fresh_service_def settle_now_def)
qed

text \<open>
  Example for C2: a stream that errors at once; the reads resolve with \<open>null\<close>, \<open>null\<close>
  and the empty list. Before \<open>initialize\<close> the read rejects. A timer that finds the
  promise pending resolves \<open>fetchFollowList\<close> with the empty list and
  \<open>fetchMultipleProfiles\<close> with the profile it holds.
\<close>

theorem reads_never_reject_witness:
  "promise (fetchProfile sample_JSON (service_with failing) 1700000000000 key_a) = Resolved None
   \<and> promise (fetchProfileRoleTag (service_with failing) 1700000000000 key_a) = Resolved None
   \<and> promise (fetchFollowList (service_with failing) 1700000000000 key_a) = Resolved []
   \<and> promise (queryProfiles sample_JSON fresh_service 1700000000000 [] 100)
       = Rejected NotInitialized
   \<and> promise_state (deliver fetchFollowList_observer 10000 Timer (initial_race ()))
       = Resolved []
   \<and> promise_state (deliver (fetchMultipleProfiles_observer sample_JSON) 10000 Timer
        (initial_race (Map.empty(key_a \<mapsto> only_name ''old''))))
       = Resolved (Map.empty(key_a \<mapsto> only_name ''old''))"
proof -
  have q: "queries_in_contract (store_with failing)"
    by (simp add: queries_in_contract_def store_with_def)
  have u: "eventStore fresh_service = None"
    by (simp add: fresh_service_def)
  from reads_never_reject [where svc = "service_with failing" and es = "store_with failing"
      and JSON_parse = sample_JSON and now = 1700000000000 and pk = key_a
      and cb = Timer and t = 10000 and ?s3.0 = "initial_race ()"
      and ?s4.0 = "initial_race (Map.empty(key_a \<mapsto> only_name ''old''))"]
    reads_never_reject [where svc = fresh_service and JSON_parse = sample_JSON
      and now = 1700000000000 and pubkeys = "[]" and max_results = 100]
    q u silent_service_eventStore [of failing]
  show ?thesis
    by (simp add: fetchProfile_def fetchProfileRoleTag_def fetchFollowList_def
        silent_service_eventStore store_with_def raced_def race_def failing_def
        before_deadline_def deliver_all_def perform_def
        fetchProfile_observer_def fetchProfileRoleTag_observer_def fetchFollowList_observer_def
        null_on_exit_def initial_race_def
        fetchProfile_timeoutMs_def fetchProfileRoleTag_timeoutMs_def fetchFollowList_timeoutMs_def
        split: prod.splits)
qed

subsection \<open>Latest wins\<close>













subsection \<open>Where the follow-list round trip holds\<close>

lemma valid_pubkey_nonempty: "isValidPubkey pk \<Longrightarrow> pk \<noteq> []"
  by (auto simp: isValidPubkey_def)

lemma decode_encodeEntry:
  assumes "isValidPubkey (pubkey entry)" and "positional entry"
    and "\<forall>r. relay entry = Some r \<longrightarrow> isValidRelayUrl new_URL r"
  shows "\<exists>tag. encodeEntry new_URL entry = Inr tag
               \<and> decodeFollowTags (tag # rest) = entry # decodeFollowTags rest"
proof -
  from assms(1) have ne: "pubkey entry \<noteq> []"
    by (rule valid_pubkey_nonempty)
  show ?thesis
  proof (cases "relay entry")
    case None
    with assms(2) have "petname entry = None"
      by (simp add: positional_def)
    with None assms(1) ne show ?thesis
      by (simp add: encodeEntry_def truthy_str_def js_index_def or_undefined_def)
  next
    case (Some r)
    with assms(2,3) have r: "r \<noteq> []" "isValidRelayUrl new_URL r"
      by (simp_all add: positional_def truthy_str_def)
    show ?thesis
    proof (cases "petname entry")
      case None
      with Some r assms(1) ne show ?thesis
        by (simp add: encodeEntry_def truthy_str_def js_index_def or_undefined_def)
    next
      case (Some n)
      with assms(2) have "n \<noteq> []"
        by (simp add: positional_def truthy_str_def)
      with Some \<open>relay entry = Some r\<close> r assms(1) ne show ?thesis
        by (simp add: encodeEntry_def truthy_str_def js_index_def or_undefined_def)
    qed
  qed
qed

lemma follow_list_roundtrip_positional:
  assumes "list_all (\<lambda>entry. isValidPubkey (pubkey entry) \<and> positional entry
              \<and> (\<forall>r. relay entry = Some r \<longrightarrow> isValidRelayUrl new_URL r)) followList"
  shows "\<exists>tgs. encodeFollowList new_URL followList = Inr tgs
               \<and> decodeFollowTags tgs = followList"
  using assms
proof (induction followList)
  case Nil
  then show ?case by simp
next
  case (Cons entry rest)
  then obtain tgs where tgs: "encodeFollowList new_URL rest = Inr tgs"
    "decodeFollowTags tgs = rest"
    by auto
  from Cons.prems decode_encodeEntry [of entry new_URL tgs]
  obtain tag where "encodeEntry new_URL entry = Inr tag"
    "decodeFollowTags (tag # tgs) = entry # decodeFollowTags tgs"
    by auto
  with tgs show ?case by simp
qed

subsection \<open>An entry with an empty relay\<close>



end
